theory Spec2Isabelle
  imports Main "HOL-Library.Char_ord" "HOL-Library.List_Lexorder" "HOL-Library.AList"
begin

section \<open>Errors (errors.go)\<close>

text \<open>
  A Go \<^verbatim>\<open>error\<close> value. \<open>New\<close> is \<^verbatim>\<open>errors.New\<close> of github.com/pkg/errors,
  \<open>Wrap e m\<close> is \<^verbatim>\<open>errors.Wrap(e, m)\<close> (it keeps the cause \<open>e\<close>), \<open>Errorf\<close> is the value
  \<^verbatim>\<open>fmt.Errorf\<close> builds from a format without \<^verbatim>\<open>%w\<close> (only its text remains), and
  \<open>Lib\<close> is an error made by the standard library or by the transport, known by its text.
\<close>

datatype err = New string | Wrap err string | Errorf string | Lib string

fun Error :: "err \<Rightarrow> string" where
  "Error (New m) = m"
| "Error (Wrap e m) = m @ '': '' @ Error e"
| "Error (Errorf s) = s"
| "Error (Lib s) = s"

definition ErrInvalidInput :: err where
  "ErrInvalidInput = New ''cannot send files with PostFields option''"

definition ErrCreateVariablesField :: err where
  "ErrCreateVariablesField = New ''create variables field''"

definition ErrEncodeVariablesField :: err where
  "ErrEncodeVariablesField = New ''encode variables''"

definition ErrCreateFile :: err where
  "ErrCreateFile = New ''create form file''"

definition ErrReadBody :: err where
  "ErrReadBody = New ''read body''"

definition ErrDecode :: err where
  "ErrDecode = New ''decode''"

definition ErrCopy :: err where
  "ErrCopy = New ''copy''"

definition ErrRequest :: err where
  "ErrRequest = New ''graphql: server returned a non-200 status code''"

definition NewError :: "err \<Rightarrow> err \<Rightarrow> err" where
  "NewError e wrappedErr = Wrap e (Error wrappedErr)"

record 'E GraphError =
  Message :: string
  Extensions :: 'E

definition GraphError_Error :: "'E GraphError \<Rightarrow> string" where
  "GraphError_Error e = ''graphql: '' @ Message e"

definition GetExtensions :: "'E GraphError \<Rightarrow> 'E" where
  "GetExtensions e = Extensions e"

subsection \<open>Formatting an integer with \<^verbatim>\<open>%v\<close>\<close>

function decimal :: "nat \<Rightarrow> string" where
  "decimal n =
     (if n < 10 then [''0123456789'' ! n]
      else decimal (n div 10) @ [''0123456789'' ! (n mod 10)])"
  by pat_completeness auto
termination
  by (relation "measure id") auto

declare decimal.simps [simp del]

definition Itoa :: "int \<Rightarrow> string" where
  "Itoa i = (if i < 0 then CHR ''-'' # decimal (nat (- i)) else decimal (nat i))"

text \<open>
  \<^verbatim>\<open>fmt.Errorf("%v: %v", ErrRequest, httpRes.StatusCode)\<close>, the error both strategies
  build from a status code other than 200.
\<close>

definition statusError :: "int \<Rightarrow> err" where
  "statusError code = Errorf (Error ErrRequest @ '': '' @ Itoa code)"

definition StatusOK :: int where
  "StatusOK = 200"

section \<open>Requests (request.go)\<close>

text \<open>
  Modelled from the spec: the declaration of the type \<^verbatim>\<open>Query\<close> and of its method
  \<^verbatim>\<open>String\<close> is not among the sources. The spec calls a Query an opaque string that
  holds a GraphQL document, and the tests pass string literals for it and read it back as
  a JSON string, so a Query is a string and \<^verbatim>\<open>String\<close> returns it.
\<close>

type_synonym Query = string

definition Query_String :: "Query \<Rightarrow> string" where
  "Query_String q = q"

text \<open>
  The values a variable of type \<^verbatim>\<open>any\<close> holds, as far as they are modelled: nil, booleans,
  integers, strings, slices and maps with string keys (neither of them nil), and a value
  of a type that encoding/json rejects (a channel, a function), named by its Go type. A
  map is the list of its entries, the keys distinct; the order of the list has no
  meaning.
\<close>

datatype gvalue =
    GNil
  | GBool bool
  | GInt int
  | GString string
  | GSlice "gvalue list"
  | GMap "(string \<times> gvalue) list"
  | GUnsupported string

text \<open>
  \<^verbatim>\<open>QueryVariables\<close> is \<^verbatim>\<open>map[string]any\<close>: \<open>None\<close> is the nil map, \<open>Some kvs\<close> a map
  made with \<^verbatim>\<open>make\<close>.
\<close>

type_synonym QueryVariables = "(string \<times> gvalue) list option"

text \<open>
  An \<^verbatim>\<open>io.Reader\<close> read to its end: the bytes it delivers, and the error other than
  \<^verbatim>\<open>io.EOF\<close> that ends the reading, if any.
\<close>

datatype reader = Reader string "err option"

record File =
  Field :: string
  Name :: string
  R :: reader

text \<open>
  \<^verbatim>\<open>http.Header\<close> is \<^verbatim>\<open>map[string][]string\<close>: the list of its entries, the keys
  distinct. Where the code ranges over a header, the entries are visited in the order of
  the list, which stands for the order Go happens to choose.
\<close>

type_synonym Header = "(string \<times> string list) list"

record Request =
  q :: Query
  vars :: QueryVariables
  files :: "File list"
  Header :: Header

definition NewRequest :: "Query \<Rightarrow> Request" where
  "NewRequest qu = \<lparr>q = qu, vars = None, files = [], Header = []\<rparr>"

definition Var :: "Request \<Rightarrow> string \<Rightarrow> gvalue \<Rightarrow> Request" where
  "Var req key val =
     (let m = (case vars req of None \<Rightarrow> [] | Some kvs \<Rightarrow> kvs)
      in req\<lparr>vars := Some (AList.update key val m)\<rparr>)"

definition Vars :: "Request \<Rightarrow> QueryVariables" where
  "Vars req = vars req"

definition Files :: "Request \<Rightarrow> File list" where
  "Files req = files req"

definition Query :: "Request \<Rightarrow> Query" where
  "Query req = q req"

definition File :: "Request \<Rightarrow> string \<Rightarrow> string \<Rightarrow> reader \<Rightarrow> Request" where
  "File req fieldname filename r =
     req\<lparr>files := files req @ [\<lparr>Field = fieldname, Name = filename, R = r\<rparr>]\<rparr>"

section \<open>The JSON encoder of the standard library\<close>

text \<open>
  \<^verbatim>\<open>requestJSON\<close> writes its body with \<^verbatim>\<open>json.NewEncoder(&request).Encode\<close>. What follows
  is encoding/json as the Go documentation and sources describe it, for the values of
  \<open>gvalue\<close>: strings are escaped as the encoder does with its default HTML escaping,
  a map is written with its keys sorted bytewise, a nil map is \<^verbatim>\<open>null\<close>, and
  \<^verbatim>\<open>Encode\<close> ends the document with a newline.
\<close>

definition hexDigit :: "nat \<Rightarrow> char" where
  "hexDigit n = ''0123456789abcdef'' ! n"

definition htmlSafeSet :: "char \<Rightarrow> bool" where
  "htmlSafeSet c =
     (32 \<le> (of_char c :: nat) \<and> (of_char c :: nat) < 128 \<and>
      c \<noteq> CHR 0x22 \<and> c \<noteq> CHR ''&'' \<and> c \<noteq> CHR ''<'' \<and> c \<noteq> CHR ''>'' \<and> c \<noteq> CHR 0x5C)"

text \<open>The escape of one byte below \<^verbatim>\<open>utf8.RuneSelf\<close> (0x80).\<close>

definition escapeByte :: "char \<Rightarrow> string" where
  "escapeByte c =
     (if htmlSafeSet c then [c]
      else if c = CHR 0x5C \<or> c = CHR 0x22 then [CHR 0x5C, c]
      else if c = CHR 0x08 then [CHR 0x5C, CHR ''b'']
      else if c = CHR 0x0C then [CHR 0x5C, CHR ''f'']
      else if c = CHR 0x0A then [CHR 0x5C, CHR ''n'']
      else if c = CHR 0x0D then [CHR 0x5C, CHR ''r'']
      else if c = CHR 0x09 then [CHR 0x5C, CHR ''t'']
      else [CHR 0x5C, CHR ''u'', CHR ''0'', CHR ''0'',
            hexDigit (of_char c div 16), hexDigit (of_char c mod 16)])"

definition between :: "nat \<Rightarrow> nat \<Rightarrow> char \<Rightarrow> bool" where
  "between lo hi c = (lo \<le> of_char c \<and> of_char c \<le> hi)"

text \<open>
  \<^verbatim>\<open>utf8.DecodeRuneInString\<close>, as far as the encoder uses it: the number of bytes of the
  encoding that starts the string, and 0 where the string starts with no valid encoding
  (Go then returns \<^verbatim>\<open>RuneError\<close> with size 1).
\<close>

fun tailOK :: "nat \<Rightarrow> nat \<Rightarrow> nat \<Rightarrow> string \<Rightarrow> nat" where
  "tailOK n lo hi (b # bs) =
     (if between lo hi b \<and> n \<le> length bs + 2 \<and> list_all (between 0x80 0xBF) (take (n - 2) bs)
      then n else 0)"
| "tailOK n lo hi [] = 0"

definition runeSize :: "string \<Rightarrow> nat" where
  "runeSize s =
     (case s of
        [] \<Rightarrow> 0
      | a # bs \<Rightarrow>
          if between 0xC2 0xDF a then tailOK 2 0x80 0xBF bs
          else if between 0xE0 0xE0 a then tailOK 3 0xA0 0xBF bs
          else if between 0xE1 0xEC a then tailOK 3 0x80 0xBF bs
          else if between 0xED 0xED a then tailOK 3 0x80 0x9F bs
          else if between 0xEE 0xEF a then tailOK 3 0x80 0xBF bs
          else if between 0xF0 0xF0 a then tailOK 4 0x90 0xBF bs
          else if between 0xF1 0xF3 a then tailOK 4 0x80 0xBF bs
          else if between 0xF4 0xF4 a then tailOK 4 0x80 0x8F bs
          else 0)"

text \<open>
  The body of a JSON string. The first two arguments are for the bytes that follow the
  first byte of a multi-byte character already decoded: how many are left, and whether
  they are copied (a character written as it is) or dropped (U+2028 and U+2029, written
  as escapes).
\<close>

fun escapeFrom :: "bool \<Rightarrow> nat \<Rightarrow> string \<Rightarrow> string" where
  "escapeFrom keep k [] = []"
| "escapeFrom keep (Suc k) (c # cs) = (if keep then [c] else []) @ escapeFrom keep k cs"
| "escapeFrom keep 0 (c # cs) =
     (if (of_char c :: nat) < 128 then escapeByte c @ escapeFrom True 0 cs
      else if runeSize (c # cs) = 0 then
        [CHR 0x5C, CHR ''u'', CHR ''f'', CHR ''f'', CHR ''f'', CHR ''d''] @ escapeFrom True 0 cs
      else if take 3 (c # cs) = [CHR 0xE2, CHR 0x80, CHR 0xA8] then
        [CHR 0x5C, CHR ''u'', CHR ''2'', CHR ''0'', CHR ''2'', CHR ''8''] @ escapeFrom False 2 cs
      else if take 3 (c # cs) = [CHR 0xE2, CHR 0x80, CHR 0xA9] then
        [CHR 0x5C, CHR ''u'', CHR ''2'', CHR ''0'', CHR ''2'', CHR ''9''] @ escapeFrom False 2 cs
      else c # escapeFrom True (runeSize (c # cs) - 1) cs)"

definition appendString :: "string \<Rightarrow> string" where
  "appendString s = [CHR 0x22] @ escapeFrom True 0 s @ [CHR 0x22]"

text \<open>The first error of a list of results, or all the values.\<close>

fun firstError :: "(err + 'a) list \<Rightarrow> err + 'a list" where
  "firstError [] = Inr []"
| "firstError (Inl e # rs) = Inl e"
| "firstError (Inr x # rs) = (case firstError rs of Inl e \<Rightarrow> Inl e | Inr xs \<Rightarrow> Inr (x # xs))"

fun join :: "string \<Rightarrow> string list \<Rightarrow> string" where
  "join sep [] = []"
| "join sep [x] = x"
| "join sep (x # y # ys) = x @ sep @ join sep (y # ys)"

fun marshal :: "gvalue \<Rightarrow> err + string"
  and marshalList :: "gvalue list \<Rightarrow> (err + string) list"
  and marshalEntries :: "(string \<times> gvalue) list \<Rightarrow> (string \<times> (err + string)) list"
  where
  "marshal GNil = Inr ''null''"
| "marshal (GBool b) = Inr (if b then ''true'' else ''false'')"
| "marshal (GInt i) = Inr (Itoa i)"
| "marshal (GString s) = Inr (appendString s)"
| "marshal (GSlice vs) =
     (case firstError (marshalList vs) of
        Inl e \<Rightarrow> Inl e
      | Inr ss \<Rightarrow> Inr (''['' @ join '','' ss @ '']''))"
| "marshal (GMap kvs) =
     (let es = sort_key fst (marshalEntries kvs) in
      case firstError (map snd es) of
        Inl e \<Rightarrow> Inl e
      | Inr ss \<Rightarrow>
          Inr (''{'' @ join '','' (map2 (\<lambda>k s. appendString k @ '':'' @ s) (map fst es) ss) @ ''}''))"
| "marshal (GUnsupported t) = Inl (Lib (''json: unsupported type: '' @ t))"
| "marshalList [] = []"
| "marshalList (v # vs) = marshal v # marshalList vs"
| "marshalEntries [] = []"
| "marshalEntries ((k, v) # kvs) = (k, marshal v) # marshalEntries kvs"

definition marshalVariables :: "QueryVariables \<Rightarrow> err + string" where
  "marshalVariables vs = (case vs of None \<Rightarrow> Inr ''null'' | Some kvs \<Rightarrow> marshal (GMap kvs))"

text \<open>
  The struct \<^verbatim>\<open>requestQuery\<close> of requester.go, with the field names of its tags
  \<^verbatim>\<open>json:"query"\<close> and \<^verbatim>\<open>json:"variables"\<close>.
\<close>

record requestQuery =
  rqQuery :: Query
  rqVariables :: QueryVariables

definition Encode_requestQuery :: "requestQuery \<Rightarrow> err + string" where
  "Encode_requestQuery v =
     (case marshalVariables (rqVariables v) of
        Inl e \<Rightarrow> Inl e
      | Inr vs \<Rightarrow>
          Inr ([CHR ''{'', CHR 0x22] @ ''query'' @ [CHR 0x22, CHR '':''] @ appendString (rqQuery v) @
               [CHR '','', CHR 0x22] @ ''variables'' @ [CHR 0x22, CHR '':''] @ vs @
               [CHR ''}'', CHR 0x0A]))"

definition Encode_variables :: "QueryVariables \<Rightarrow> err + string" where
  "Encode_variables vs =
     (case marshalVariables vs of Inl e \<Rightarrow> Inl e | Inr s \<Rightarrow> Inr (s @ [CHR 0x0A]))"

section \<open>The collaborators of the Requester\<close>

subsection \<open>Contexts, HTTP requests and responses\<close>

datatype Context = NilContext | Background | WithTimeout Context nat

record http_Request =
  httpCtx :: Context
  httpMethod :: string
  httpURL :: string
  httpHeader :: Header
  httpBody :: string
  httpClose :: bool

record http_Response =
  StatusCode :: int
  Body :: reader

text \<open>\<^verbatim>\<open>io.ReadAll\<close>: the bytes read, and the error that stopped the reading.\<close>

fun io_ReadAll :: "reader \<Rightarrow> string \<times> err option" where
  "io_ReadAll (Reader bs e) = (bs, e)"

subsection \<open>Client (client.go)\<close>

text \<open>
  The field \<open>httpClient\<close> is the interface \<^verbatim>\<open>HTTPRequestDoer\<close>: its method \<^verbatim>\<open>Do\<close>, which
  answers a request with a response or with an error. A Client is one that
  \<^verbatim>\<open>NewClient\<close> returned, so the transport is never nil.
\<close>

record Client =
  httpClient :: "http_Request \<Rightarrow> err + http_Response"
  endpoint :: string
  useMultipartForm :: bool
  closeReq :: bool

definition UseMultipartForm :: "Client \<Rightarrow> Client" where
  "UseMultipartForm c = c\<lparr>useMultipartForm := True\<rparr>"

definition ImmediatelyCloseReqBody :: "Client \<Rightarrow> Client" where
  "ImmediatelyCloseReqBody c = c\<lparr>closeReq := True\<rparr>"

subsection \<open>Responses and the Requester (requester.go)\<close>

record ('T, 'E) Response =
  Data :: 'T
  Errors :: "'E GraphError list"

record Requester =
  client :: Client

definition NewRequester :: "Client \<Rightarrow> Requester" where
  "NewRequester c = \<lparr>client = c\<rparr>"

subsection \<open>What the standard library and the type parameters supply\<close>

text \<open>
  The Requester is generic in the types \<open>'T\<close> and \<open>'E\<close> and calls into net/http,
  net/textproto, mime/multipart and encoding/json. What these do is not fixed by the
  code of the repository, so it is a parameter of the model, and every theorem holds for
  each value of it:
  \<^item> \<open>zeroData\<close> is the zero value of \<open>'T\<close>;
  \<^item> \<open>CanonicalMIMEHeaderKey\<close> is the key under which \<^verbatim>\<open>Header.Set\<close> and
    \<^verbatim>\<open>Header.Add\<close> store a value;
  \<^item> \<open>newRequestError\<close> is the error of \<^verbatim>\<open>http.NewRequestWithContext\<close> for a context
    and a URL, if it has one;
  \<^item> \<open>Unmarshal\<close> is \<^verbatim>\<open>json.Unmarshal\<close> into a Response: it is given the bytes and
    the value behind the pointer, and returns the value it leaves there and its error;
  \<^item> the rest is a \<^verbatim>\<open>multipart.Writer\<close> over a buffer, \<open>'w\<close> being the state of both:
    \<open>PartWrite\<close> writes to the part created last, \<open>Bytes\<close> is the content of the buffer.
\<close>

record ('w, 'T, 'E) lib =
  zeroData :: 'T
  CanonicalMIMEHeaderKey :: "string \<Rightarrow> string"
  newRequestError :: "Context \<Rightarrow> string \<Rightarrow> err option"
  Unmarshal :: "string \<Rightarrow> ('T, 'E) Response \<Rightarrow> ('T, 'E) Response \<times> err option"
  NewWriter :: 'w
  WriteField :: "'w \<Rightarrow> string \<Rightarrow> string \<Rightarrow> err + 'w"
  CreateFormField :: "'w \<Rightarrow> string \<Rightarrow> err + 'w"
  CreateFormFile :: "'w \<Rightarrow> string \<Rightarrow> string \<Rightarrow> err + 'w"
  PartWrite :: "'w \<Rightarrow> string \<Rightarrow> err + 'w"
  Close :: "'w \<Rightarrow> err + 'w"
  FormDataContentType :: "'w \<Rightarrow> string"
  Bytes :: "'w \<Rightarrow> string"

text \<open>The value of \<^verbatim>\<open>var res Response[T, E]\<close>.\<close>

definition zeroResponse :: "('w, 'T, 'E) lib \<Rightarrow> ('T, 'E) Response" where
  "zeroResponse l = \<lparr>Data = zeroData l, Errors = []\<rparr>"

text \<open>\<^verbatim>\<open>http.Header\<close>: the values stored under a key, \<^verbatim>\<open>Set\<close> and \<^verbatim>\<open>Add\<close>.\<close>

definition valuesOf :: "Header \<Rightarrow> string \<Rightarrow> string list" where
  "valuesOf h k = (case map_of h k of None \<Rightarrow> [] | Some vs \<Rightarrow> vs)"

definition Header_Set :: "('w, 'T, 'E) lib \<Rightarrow> Header \<Rightarrow> string \<Rightarrow> string \<Rightarrow> Header" where
  "Header_Set l h key val = AList.update (CanonicalMIMEHeaderKey l key) [val] h"

definition Header_Add :: "('w, 'T, 'E) lib \<Rightarrow> Header \<Rightarrow> string \<Rightarrow> string \<Rightarrow> Header" where
  "Header_Add l h key val =
     AList.update (CanonicalMIMEHeaderKey l key)
       (valuesOf h (CanonicalMIMEHeaderKey l key) @ [val]) h"

text \<open>
  \<^verbatim>\<open>http.NewRequestWithContext\<close>: a request with the method, the URL and the body given,
  and no header yet.
\<close>

definition http_NewRequestWithContext ::
  "('w, 'T, 'E) lib \<Rightarrow> Context \<Rightarrow> string \<Rightarrow> string \<Rightarrow> string \<Rightarrow> err + http_Request" where
  "http_NewRequestWithContext l ctx method url body =
     (case newRequestError l ctx url of
        Some e \<Rightarrow> Inl e
      | None \<Rightarrow>
          Inr \<lparr>httpCtx = ctx, httpMethod = method, httpURL = url, httpHeader = [],
               httpBody = body, httpClose = False\<rparr>)"

text \<open>
  \<^verbatim>\<open>io.Copy\<close> from a reader into the part created last: the bytes read are written, a
  failed write ends the copy, and so does the error of the reader.
\<close>

definition io_Copy :: "('w, 'T, 'E) lib \<Rightarrow> 'w \<Rightarrow> reader \<Rightarrow> err + 'w" where
  "io_Copy l w r =
     (case r of Reader bs e \<Rightarrow>
        (case (if bs = [] then Inr w else PartWrite l w bs) of
           Inl we \<Rightarrow> Inl we
         | Inr w' \<Rightarrow> (case e of Some re \<Rightarrow> Inl re | None \<Rightarrow> Inr w')))"

section \<open>The Requester (requester.go)\<close>

text \<open>
  A call returns the pair \<^verbatim>\<open>(Response[T, E], error)\<close>, \<open>None\<close> being the nil error. The
  model returns with it the requests handed to \<^verbatim>\<open>Do\<close> of the transport, in order: the
  network calls made.
\<close>

type_synonym ('T, 'E) returned = "(('T, 'E) Response \<times> err option) \<times> http_Request list"

subsection \<open>setRequestHeaders\<close>

fun addValues :: "('w, 'T, 'E) lib \<Rightarrow> Header \<Rightarrow> string \<Rightarrow> string list \<Rightarrow> Header" where
  "addValues l h key [] = h"
| "addValues l h key (v # vs) = addValues l (Header_Add l h key v) key vs"

fun addHeaders :: "('w, 'T, 'E) lib \<Rightarrow> Header \<Rightarrow> Header \<Rightarrow> Header" where
  "addHeaders l h [] = h"
| "addHeaders l h ((key, vals) # rest) = addHeaders l (addValues l h key vals) rest"

definition setRequestHeaders ::
  "('w, 'T, 'E) lib \<Rightarrow> Requester \<Rightarrow> http_Request \<Rightarrow> Request \<Rightarrow> string \<Rightarrow> http_Request" where
  "setRequestHeaders l r httpReq req contentType =
     (let r1 = httpReq\<lparr>httpClose := closeReq (client r)\<rparr>;
          r2 = r1\<lparr>httpHeader := Header_Set l (httpHeader r1) ''Content-Type'' contentType\<rparr>;
          r3 = r2\<lparr>httpHeader :=
                   Header_Set l (httpHeader r2) ''Accept'' ''application/json; charset=utf-8''\<rparr>
      in r3\<lparr>httpHeader := addHeaders l (httpHeader r3) (Header req)\<rparr>)"

subsection \<open>requestJSON\<close>

text \<open>
  Each \<^verbatim>\<open>return\<close> of the Go function is a branch here, in the order of the source. The
  Response behind the pointer given to \<^verbatim>\<open>json.Unmarshal\<close> is the one returned afterwards,
  with or without an error. The deferred \<^verbatim>\<open>Body.Close\<close> changes nothing of what is
  returned and is left out.
\<close>

definition requestJSON ::
  "('w, 'T, 'E) lib \<Rightarrow> Requester \<Rightarrow> Context \<Rightarrow> Request \<Rightarrow> ('T, 'E) returned" where
  "requestJSON l r ctx req =
     (let response = zeroResponse l in
      case Encode_requestQuery \<lparr>rqQuery = q req, rqVariables = vars req\<rparr> of
        Inl e \<Rightarrow> ((response, Some e), [])
      | Inr request \<Rightarrow>
      case http_NewRequestWithContext l ctx ''POST'' (endpoint (client r)) request of
        Inl e \<Rightarrow> ((response, Some e), [])
      | Inr httpReq0 \<Rightarrow>
      let httpReq = (setRequestHeaders l r httpReq0 req ''application/json; charset=utf-8'')
                      \<lparr>httpCtx := ctx\<rparr> in
      case httpClient (client r) httpReq of
        Inl e \<Rightarrow> ((response, Some e), [httpReq])
      | Inr httpRes \<Rightarrow>
      case io_ReadAll (Body httpRes) of
        (body, Some e) \<Rightarrow> ((response, Some (NewError e ErrReadBody)), [httpReq])
      | (body, None) \<Rightarrow>
      case Unmarshal l body response of
        (response', Some e) \<Rightarrow>
          if StatusCode httpRes \<noteq> StatusOK
          then ((response', Some (statusError (StatusCode httpRes))), [httpReq])
          else ((response', Some (Wrap e ''decoding response'')), [httpReq])
      | (response', None) \<Rightarrow> ((response', None), [httpReq]))"

subsection \<open>requestMultipart\<close>

text \<open>
  The encoder of the variables writes to the form field and to a buffer that is never
  read; only the write to the form field is modelled.
\<close>

definition lenVars :: "QueryVariables \<Rightarrow> nat" where
  "lenVars vs = (case vs of None \<Rightarrow> 0 | Some kvs \<Rightarrow> length kvs)"

text \<open>The block run when \<^verbatim>\<open>len(req.vars) > 0\<close>: it returns the error the function returns.\<close>

definition writeVariables :: "('w, 'T, 'E) lib \<Rightarrow> 'w \<Rightarrow> QueryVariables \<Rightarrow> err + 'w" where
  "writeVariables l w vs =
     (case CreateFormField l w ''variables'' of
        Inl e \<Rightarrow> Inl (NewError e ErrCreateVariablesField)
      | Inr w1 \<Rightarrow>
      case Encode_variables vs of
        Inl e \<Rightarrow> Inl (NewError e ErrEncodeVariablesField)
      | Inr s \<Rightarrow>
      case PartWrite l w1 s of
        Inl e \<Rightarrow> Inl (NewError e ErrEncodeVariablesField)
      | Inr w2 \<Rightarrow> Inr w2)"

text \<open>The loop over \<^verbatim>\<open>req.files\<close>.\<close>

fun writeFiles :: "('w, 'T, 'E) lib \<Rightarrow> 'w \<Rightarrow> File list \<Rightarrow> err + 'w" where
  "writeFiles l w [] = Inr w"
| "writeFiles l w (f # fs) =
     (case CreateFormFile l w (Field f) (Name f) of
        Inl e \<Rightarrow> Inl (NewError e ErrCreateFile)
      | Inr part \<Rightarrow>
      case io_Copy l part (R f) of
        Inl e \<Rightarrow> Inl (NewError e ErrCopy)
      | Inr w' \<Rightarrow> writeFiles l w' fs)"

definition requestMultipart ::
  "('w, 'T, 'E) lib \<Rightarrow> Requester \<Rightarrow> Context \<Rightarrow> Request \<Rightarrow> ('T, 'E) returned" where
  "requestMultipart l r ctx req =
     (let response = zeroResponse l in
      case WriteField l (NewWriter l) ''query'' (Query_String (q req)) of
        Inl e \<Rightarrow> ((response, Some e), [])
      | Inr w1 \<Rightarrow>
      case (if lenVars (vars req) > 0 then writeVariables l w1 (vars req) else Inr w1) of
        Inl e \<Rightarrow> ((response, Some e), [])
      | Inr w2 \<Rightarrow>
      case writeFiles l w2 (files req) of
        Inl e \<Rightarrow> ((response, Some e), [])
      | Inr w3 \<Rightarrow>
      case Close l w3 of
        Inl e \<Rightarrow> ((response, Some (Wrap e ''close writer'')), [])
      | Inr writer \<Rightarrow>
      case http_NewRequestWithContext l ctx ''POST'' (endpoint (client r)) (Bytes l writer) of
        Inl e \<Rightarrow> ((response, Some e), [])
      | Inr httpReq0 \<Rightarrow>
      let httpReq = setRequestHeaders l r httpReq0 req (FormDataContentType l writer) in
      case httpClient (client r) httpReq of
        Inl e \<Rightarrow> ((response, Some e), [httpReq])
      | Inr httpRes \<Rightarrow>
      case io_ReadAll (Body httpRes) of
        (body, Some e) \<Rightarrow>
          if StatusCode httpRes \<noteq> StatusOK
          then ((response, Some (statusError (StatusCode httpRes))), [httpReq])
          else ((response, Some (NewError e ErrReadBody)), [httpReq])
      | (body, None) \<Rightarrow>
      case Unmarshal l body response of
        (response', Some e) \<Rightarrow> ((response', Some (NewError e ErrDecode)), [httpReq])
      | (response', None) \<Rightarrow> ((response', None), [httpReq]))"

subsection \<open>Request\<close>

definition Request ::
  "('w, 'T, 'E) lib \<Rightarrow> Requester \<Rightarrow> Context \<Rightarrow> Request \<Rightarrow> ('T, 'E) returned" where
  "Request l r ctx req =
     (let res = zeroResponse l in
      if length (files req) > 0 \<and> \<not> useMultipartForm (client r) then ((res, Some ErrInvalidInput), [])
      else if useMultipartForm (client r) then requestMultipart l r ctx req
      else requestJSON l r ctx req)"

text \<open>The parts of what a call returns.\<close>

definition responseOf :: "('T, 'E) returned \<Rightarrow> ('T, 'E) Response" where
  "responseOf ret = fst (fst ret)"

definition errorOf :: "('T, 'E) returned \<Rightarrow> err option" where
  "errorOf ret = snd (fst ret)"

definition callsOf :: "('T, 'E) returned \<Rightarrow> http_Request list" where
  "callsOf ret = snd ret"

section \<open>The named failure categories\<close>

text \<open>
  The variables of errors.go. An error is in a named category when it is one of them,
  when it wraps a cause under the text of one of them, as \<open>NewError\<close> does, or when it
  is a formatted error whose text starts with the text of one of them and a colon, as
  the error made from a status code does.
\<close>

definition categories :: "err list" where
  "categories =
     [ErrInvalidInput, ErrCreateVariablesField, ErrEncodeVariablesField, ErrCreateFile,
      ErrReadBody, ErrDecode, ErrCopy, ErrRequest]"

fun inCategory :: "err \<Rightarrow> bool" where
  "inCategory (New m) = (New m \<in> set categories)"
| "inCategory (Wrap c m) = (m \<in> set (map Error categories))"
| "inCategory (Errorf s) =
     list_ex (\<lambda>k. take (length (Error k) + 2) s = Error k @ '': '') categories"
| "inCategory (Lib s) = False"

section \<open>Values of the parameters for running the model\<close>

text \<open>
  The types the tests of the repository decode into, and a library to run the model
  with: the canonical form of a header key follows net/textproto, the decoder knows the
  bodies a test server sends and rejects every other body, leaving the Response as it
  was, and the multipart writer keeps each part as a line of text and never fails.
\<close>

record testData =
  Something :: string

record testErrorExtension =
  extMessage :: string
  extCode :: int

definition tokenByte :: "char \<Rightarrow> bool" where
  "tokenByte c =
     (between 0x30 0x39 c \<or> between 0x41 0x5A c \<or> between 0x61 0x7A c \<or>
      c \<in> set ''!#$%&*+-.^_`|~'' \<or> c = CHR 0x27)"

fun canonical :: "bool \<Rightarrow> string \<Rightarrow> string" where
  "canonical upper [] = []"
| "canonical upper (c # cs) =
     (let c' = (if upper \<and> between 0x61 0x7A c then char_of (of_char c - 32 :: nat)
                else if \<not> upper \<and> between 0x41 0x5A c then char_of (of_char c + 32 :: nat)
                else c)
      in c' # canonical (c' = CHR ''-'') cs)"

definition canonicalKey :: "string \<Rightarrow> string" where
  "canonicalKey s = (if list_all tokenByte s then canonical True s else s)"

definition bodyYes :: string where
  \<open>bodyYes = ''{"data":{"something":"yes"},"errors":null}''\<close>

definition bodyExtension :: string where
  \<open>bodyExtension =
     ''{"data":{"something":""},"errors":[{"message":"bad request","extensions":{"message":"extension error","code":400}}]}''\<close>

definition testUnmarshal ::
  "string \<Rightarrow> (testData, testErrorExtension) Response \<Rightarrow>
   (testData, testErrorExtension) Response \<times> err option" where
  "testUnmarshal body target =
     (if body = bodyYes then
        (target\<lparr>Data := \<lparr>Something = ''yes''\<rparr>, Errors := []\<rparr>, None)
      else if body = bodyExtension then
        (target\<lparr>Data := \<lparr>Something = []\<rparr>,
                Errors := [\<lparr>Message = ''bad request'',
                            Extensions = \<lparr>extMessage = ''extension error'', extCode = 400\<rparr>\<rparr>]\<rparr>,
         None)
      else (target, Some (Lib ''invalid character'')))"

definition testlib :: "(string list, testData, testErrorExtension) lib" where
  "testlib =
     \<lparr>zeroData = \<lparr>Something = []\<rparr>,
      CanonicalMIMEHeaderKey = canonicalKey,
      newRequestError =
        (\<lambda>ctx url. if ctx = NilContext then Some (Lib ''net/http: nil Context'') else None),
      Unmarshal = testUnmarshal,
      NewWriter = [],
      WriteField = (\<lambda>w name val. Inr (w @ [name @ ''='' @ val])),
      CreateFormField = (\<lambda>w name. Inr (w @ [name @ ''=''])),
      CreateFormFile = (\<lambda>w field name. Inr (w @ [field @ ''='' @ name @ '':''])),
      PartWrite =
        (\<lambda>w bs. case rev w of [] \<Rightarrow> Inl (Lib ''no part'') | p # ps \<Rightarrow> Inr (rev ps @ [p @ bs])),
      Close = (\<lambda>w. Inr (w @ [''--''])),
      FormDataContentType = (\<lambda>w. ''multipart/form-data; boundary=b''),
      Bytes = (\<lambda>w. join ''&'' w)\<rparr>"

text \<open>
  Transports: a server that answers every request with a status code and a body, and a
  network that refuses the connection.
\<close>

definition server :: "int \<Rightarrow> reader \<Rightarrow> http_Request \<Rightarrow> err + http_Response" where
  "server code body hr = Inr \<lparr>StatusCode = code, Body = body\<rparr>"

definition refused :: "http_Request \<Rightarrow> err + http_Response" where
  "refused hr = Inl (Lib ''dial tcp 127.0.0.1:80: connect: connection refused'')"

definition testClient :: "(http_Request \<Rightarrow> err + http_Response) \<Rightarrow> Client" where
  "testClient tr =
     \<lparr>httpClient = tr, endpoint = ''http://127.0.0.1/graphql'', useMultipartForm = False,
      closeReq = False\<rparr>"

text \<open>
  A second library, the same but for its decoder. Where one field of the body holds a
  value of the wrong kind, encoding/json fills the fields it can, leaves the others and
  returns the error of the first field it could not fill; this decoder does so for one
  body, whose \<^verbatim>\<open>errors\<close> field is a string. The text of its error stands for the one of
  the library.
\<close>

definition bodyPartial :: string where
  \<open>bodyPartial = ''{"data":{"something":"yes"},"errors":"oops"}''\<close>

definition partialUnmarshal ::
  "string \<Rightarrow> (testData, testErrorExtension) Response \<Rightarrow>
   (testData, testErrorExtension) Response \<times> err option" where
  "partialUnmarshal body target =
     (if body = bodyPartial then
        (target\<lparr>Data := \<lparr>Something = ''yes''\<rparr>\<rparr>,
         Some (Lib ''json: cannot unmarshal string into Go struct field Response.errors''))
      else testUnmarshal body target)"

definition partiallib :: "(string list, testData, testErrorExtension) lib" where
  "partiallib = testlib\<lparr>Unmarshal := partialUnmarshal\<rparr>"

section \<open>How a call proceeds\<close>

text \<open>
  The two strategies stop before the transport is called when a step of building the
  request fails; once every step has passed, one request is handed to the transport and
  what is returned depends on its answer alone.
\<close>

lemma requestJSON_early:
  "Encode_requestQuery \<lparr>rqQuery = q req, rqVariables = vars req\<rparr> = Inl e \<Longrightarrow>
   requestJSON l r ctx req = ((zeroResponse l, Some e), [])"
  "Encode_requestQuery \<lparr>rqQuery = q req, rqVariables = vars req\<rparr> = Inr body \<Longrightarrow>
   http_NewRequestWithContext l ctx ''POST'' (endpoint (client r)) body = Inl e \<Longrightarrow>
   requestJSON l r ctx req = ((zeroResponse l, Some e), [])"
  by (simp_all add: requestJSON_def)

lemma requestJSON_late:
  assumes "Encode_requestQuery \<lparr>rqQuery = q req, rqVariables = vars req\<rparr> = Inr body"
    and "http_NewRequestWithContext l ctx ''POST'' (endpoint (client r)) body = Inr h0"
    and "hr = (setRequestHeaders l r h0 req ''application/json; charset=utf-8'')\<lparr>httpCtx := ctx\<rparr>"
  shows "requestJSON l r ctx req =
     ((case httpClient (client r) hr of
        Inl e \<Rightarrow> (zeroResponse l, Some e)
      | Inr httpRes \<Rightarrow>
      case io_ReadAll (Body httpRes) of
        (body, Some e) \<Rightarrow> (zeroResponse l, Some (NewError e ErrReadBody))
      | (body, None) \<Rightarrow>
      case Unmarshal l body (zeroResponse l) of
        (response', Some e) \<Rightarrow>
          if StatusCode httpRes \<noteq> StatusOK
          then (response', Some (statusError (StatusCode httpRes)))
          else (response', Some (Wrap e ''decoding response''))
      | (response', None) \<Rightarrow> (response', None)), [hr])"
  unfolding requestJSON_def Let_def assms(1) assms(2) assms(3)[symmetric] sum.case
  by (simp split: sum.split prod.split option.split)

lemma requestJSON_sent:
  assumes "callsOf (requestJSON l r ctx req) = [hr]"
  shows "\<exists>body h0. Encode_requestQuery \<lparr>rqQuery = q req, rqVariables = vars req\<rparr> = Inr body \<and>
           http_NewRequestWithContext l ctx ''POST'' (endpoint (client r)) body = Inr h0 \<and>
           hr = (setRequestHeaders l r h0 req ''application/json; charset=utf-8'')\<lparr>httpCtx := ctx\<rparr>"
proof (cases "Encode_requestQuery \<lparr>rqQuery = q req, rqVariables = vars req\<rparr>")
  case (Inl e)
  with assms show ?thesis by (simp add: requestJSON_early callsOf_def)
next
  case (Inr body)
  show ?thesis
  proof (cases "http_NewRequestWithContext l ctx ''POST'' (endpoint (client r)) body")
    case (Inl e)
    with Inr assms show ?thesis by (simp add: requestJSON_early callsOf_def)
  next
    case h0: (Inr h0)
    from requestJSON_late [OF Inr h0 refl] assms Inr h0 show ?thesis
      by (simp add: callsOf_def)
  qed
qed

lemma requestJSON_answer:
  assumes "callsOf (requestJSON l r ctx req) = [hr]"
  shows "fst (requestJSON l r ctx req) =
     (case httpClient (client r) hr of
        Inl e \<Rightarrow> (zeroResponse l, Some e)
      | Inr httpRes \<Rightarrow>
      case io_ReadAll (Body httpRes) of
        (body, Some e) \<Rightarrow> (zeroResponse l, Some (NewError e ErrReadBody))
      | (body, None) \<Rightarrow>
      case Unmarshal l body (zeroResponse l) of
        (response', Some e) \<Rightarrow>
          if StatusCode httpRes \<noteq> StatusOK
          then (response', Some (statusError (StatusCode httpRes)))
          else (response', Some (Wrap e ''decoding response''))
      | (response', None) \<Rightarrow> (response', None))"
proof -
  from requestJSON_sent [OF assms] obtain body h0 where
    "Encode_requestQuery \<lparr>rqQuery = q req, rqVariables = vars req\<rparr> = Inr body"
    "http_NewRequestWithContext l ctx ''POST'' (endpoint (client r)) body = Inr h0"
    "hr = (setRequestHeaders l r h0 req ''application/json; charset=utf-8'')\<lparr>httpCtx := ctx\<rparr>"
    by blast
  from requestJSON_late [OF this] show ?thesis by simp
qed

lemma requestMultipart_early:
  "WriteField l (NewWriter l) ''query'' (Query_String (q req)) = Inl e \<Longrightarrow>
   requestMultipart l r ctx req = ((zeroResponse l, Some e), [])"
  "WriteField l (NewWriter l) ''query'' (Query_String (q req)) = Inr w1 \<Longrightarrow>
   (if lenVars (vars req) > 0 then writeVariables l w1 (vars req) else Inr w1) = Inl e \<Longrightarrow>
   requestMultipart l r ctx req = ((zeroResponse l, Some e), [])"
  "WriteField l (NewWriter l) ''query'' (Query_String (q req)) = Inr w1 \<Longrightarrow>
   (if lenVars (vars req) > 0 then writeVariables l w1 (vars req) else Inr w1) = Inr w2 \<Longrightarrow>
   writeFiles l w2 (files req) = Inl e \<Longrightarrow>
   requestMultipart l r ctx req = ((zeroResponse l, Some e), [])"
  "WriteField l (NewWriter l) ''query'' (Query_String (q req)) = Inr w1 \<Longrightarrow>
   (if lenVars (vars req) > 0 then writeVariables l w1 (vars req) else Inr w1) = Inr w2 \<Longrightarrow>
   writeFiles l w2 (files req) = Inr w3 \<Longrightarrow>
   Close l w3 = Inl e \<Longrightarrow>
   requestMultipart l r ctx req = ((zeroResponse l, Some (Wrap e ''close writer'')), [])"
  "WriteField l (NewWriter l) ''query'' (Query_String (q req)) = Inr w1 \<Longrightarrow>
   (if lenVars (vars req) > 0 then writeVariables l w1 (vars req) else Inr w1) = Inr w2 \<Longrightarrow>
   writeFiles l w2 (files req) = Inr w3 \<Longrightarrow>
   Close l w3 = Inr writer \<Longrightarrow>
   http_NewRequestWithContext l ctx ''POST'' (endpoint (client r)) (Bytes l writer) = Inl e \<Longrightarrow>
   requestMultipart l r ctx req = ((zeroResponse l, Some e), [])"
  by (simp_all add: requestMultipart_def)

lemma requestMultipart_late:
  assumes "WriteField l (NewWriter l) ''query'' (Query_String (q req)) = Inr w1"
    and "(if lenVars (vars req) > 0 then writeVariables l w1 (vars req) else Inr w1) = Inr w2"
    and "writeFiles l w2 (files req) = Inr w3"
    and "Close l w3 = Inr writer"
    and "http_NewRequestWithContext l ctx ''POST'' (endpoint (client r)) (Bytes l writer) = Inr h0"
    and "hr = setRequestHeaders l r h0 req (FormDataContentType l writer)"
  shows "requestMultipart l r ctx req =
     ((case httpClient (client r) hr of
        Inl e \<Rightarrow> (zeroResponse l, Some e)
      | Inr httpRes \<Rightarrow>
      case io_ReadAll (Body httpRes) of
        (body, Some e) \<Rightarrow>
          if StatusCode httpRes \<noteq> StatusOK
          then (zeroResponse l, Some (statusError (StatusCode httpRes)))
          else (zeroResponse l, Some (NewError e ErrReadBody))
      | (body, None) \<Rightarrow>
      case Unmarshal l body (zeroResponse l) of
        (response', Some e) \<Rightarrow> (response', Some (NewError e ErrDecode))
      | (response', None) \<Rightarrow> (response', None)), [hr])"
  unfolding requestMultipart_def Let_def assms(1) assms(2) assms(3) assms(4) assms(5)
    assms(6)[symmetric] sum.case
  by (simp split: sum.split prod.split option.split)

lemma requestMultipart_sent:
  assumes "callsOf (requestMultipart l r ctx req) = [hr]"
  shows "\<exists>w1 w2 w3 writer h0.
           WriteField l (NewWriter l) ''query'' (Query_String (q req)) = Inr w1 \<and>
           (if lenVars (vars req) > 0 then writeVariables l w1 (vars req) else Inr w1) = Inr w2 \<and>
           writeFiles l w2 (files req) = Inr w3 \<and>
           Close l w3 = Inr writer \<and>
           http_NewRequestWithContext l ctx ''POST'' (endpoint (client r)) (Bytes l writer) = Inr h0 \<and>
           hr = setRequestHeaders l r h0 req (FormDataContentType l writer)"
proof (cases "WriteField l (NewWriter l) ''query'' (Query_String (q req))")
  case (Inl e)
  with assms show ?thesis by (simp add: requestMultipart_early(1) callsOf_def)
next
  case w1: (Inr w1)
  show ?thesis
  proof (cases "if lenVars (vars req) > 0 then writeVariables l w1 (vars req) else Inr w1")
    case (Inl e)
    from requestMultipart_early(2) [OF w1 Inl] assms show ?thesis by (simp add: callsOf_def)
  next
    case w2: (Inr w2)
    show ?thesis
    proof (cases "writeFiles l w2 (files req)")
      case (Inl e)
      from requestMultipart_early(3) [OF w1 w2 Inl] assms show ?thesis by (simp add: callsOf_def)
    next
      case w3: (Inr w3)
      show ?thesis
      proof (cases "Close l w3")
        case (Inl e)
        from requestMultipart_early(4) [OF w1 w2 w3 Inl] assms show ?thesis
          by (simp add: callsOf_def)
      next
        case wr: (Inr writer)
        show ?thesis
        proof (cases "http_NewRequestWithContext l ctx ''POST'' (endpoint (client r)) (Bytes l writer)")
          case (Inl e)
          from requestMultipart_early(5) [OF w1 w2 w3 wr Inl] assms show ?thesis
            by (simp add: callsOf_def)
        next
          case h0: (Inr h0)
          from requestMultipart_late [OF w1 w2 w3 wr h0 refl] assms have
            "hr = setRequestHeaders l r h0 req (FormDataContentType l writer)"
            by (simp add: callsOf_def)
          with w1 w2 w3 wr h0 show ?thesis by blast
        qed
      qed
    qed
  qed
qed

lemma requestMultipart_answer:
  assumes "callsOf (requestMultipart l r ctx req) = [hr]"
  shows "fst (requestMultipart l r ctx req) =
     (case httpClient (client r) hr of
        Inl e \<Rightarrow> (zeroResponse l, Some e)
      | Inr httpRes \<Rightarrow>
      case io_ReadAll (Body httpRes) of
        (body, Some e) \<Rightarrow>
          if StatusCode httpRes \<noteq> StatusOK
          then (zeroResponse l, Some (statusError (StatusCode httpRes)))
          else (zeroResponse l, Some (NewError e ErrReadBody))
      | (body, None) \<Rightarrow>
      case Unmarshal l body (zeroResponse l) of
        (response', Some e) \<Rightarrow> (response', Some (NewError e ErrDecode))
      | (response', None) \<Rightarrow> (response', None))"
proof -
  from requestMultipart_sent [OF assms] obtain w1 w2 w3 writer h0 where
    "WriteField l (NewWriter l) ''query'' (Query_String (q req)) = Inr w1"
    "(if lenVars (vars req) > 0 then writeVariables l w1 (vars req) else Inr w1) = Inr w2"
    "writeFiles l w2 (files req) = Inr w3"
    "Close l w3 = Inr writer"
    "http_NewRequestWithContext l ctx ''POST'' (endpoint (client r)) (Bytes l writer) = Inr h0"
    "hr = setRequestHeaders l r h0 req (FormDataContentType l writer)"
    by blast
  from requestMultipart_late [OF this] show ?thesis by simp
qed

lemma Request_sent_JSON:
  assumes "\<not> useMultipartForm (client r)" "callsOf (Request l r ctx req) = [hr]"
  shows "Request l r ctx req = requestJSON l r ctx req"
  using assms by (simp add: Request_def callsOf_def split: if_splits)

lemma Request_Multipart:
  assumes "useMultipartForm (client r)"
  shows "Request l r ctx req = requestMultipart l r ctx req"
  using assms by (simp add: Request_def)

lemma Request_answer_JSON:
  assumes "\<not> useMultipartForm (client r)" and "callsOf (Request l r ctx req) = [hr]"
  shows "fst (Request l r ctx req) =
     (case httpClient (client r) hr of
        Inl e \<Rightarrow> (zeroResponse l, Some e)
      | Inr httpRes \<Rightarrow>
      case io_ReadAll (Body httpRes) of
        (body, Some e) \<Rightarrow> (zeroResponse l, Some (NewError e ErrReadBody))
      | (body, None) \<Rightarrow>
      case Unmarshal l body (zeroResponse l) of
        (response', Some e) \<Rightarrow>
          if StatusCode httpRes \<noteq> StatusOK
          then (response', Some (statusError (StatusCode httpRes)))
          else (response', Some (Wrap e ''decoding response''))
      | (response', None) \<Rightarrow> (response', None))"
proof -
  have eq: "Request l r ctx req = requestJSON l r ctx req"
    by (rule Request_sent_JSON [OF assms])
  from assms(2) have "callsOf (requestJSON l r ctx req) = [hr]"
    unfolding eq .
  then show ?thesis
    unfolding eq by (rule requestJSON_answer)
qed

lemma Request_answer_Multipart:
  assumes "useMultipartForm (client r)" and "callsOf (Request l r ctx req) = [hr]"
  shows "fst (Request l r ctx req) =
     (case httpClient (client r) hr of
        Inl e \<Rightarrow> (zeroResponse l, Some e)
      | Inr httpRes \<Rightarrow>
      case io_ReadAll (Body httpRes) of
        (body, Some e) \<Rightarrow>
          if StatusCode httpRes \<noteq> StatusOK
          then (zeroResponse l, Some (statusError (StatusCode httpRes)))
          else (zeroResponse l, Some (NewError e ErrReadBody))
      | (body, None) \<Rightarrow>
      case Unmarshal l body (zeroResponse l) of
        (response', Some e) \<Rightarrow> (response', Some (NewError e ErrDecode))
      | (response', None) \<Rightarrow> (response', None))"
proof -
  have eq: "Request l r ctx req = requestMultipart l r ctx req"
    by (rule Request_Multipart [OF assms(1)])
  from assms(2) have "callsOf (requestMultipart l r ctx req) = [hr]"
    unfolding eq .
  then show ?thesis
    unfolding eq by (rule requestMultipart_answer)
qed

lemma status_500_text:
  "Error (statusError 500) = ''graphql: server returned a non-200 status code: 500''"
  by (simp add: statusError_def ErrRequest_def Itoa_def decimal.simps)

subsection \<open>Headers and body of the request sent\<close>

lemma valuesOf_update:
  "valuesOf (AList.update k v h) k' = (if k' = k then v else valuesOf h k')"
  by (simp add: valuesOf_def update_conv')

lemma valuesOf_Header_Add:
  "valuesOf (Header_Add l h key v) k =
     valuesOf h k @ (if k = CanonicalMIMEHeaderKey l key then [v] else [])"
  by (simp add: Header_Add_def valuesOf_update)

lemma valuesOf_addValues:
  "valuesOf (addValues l h key vs) k =
     valuesOf h k @ (if k = CanonicalMIMEHeaderKey l key then vs else [])"
  by (induction vs arbitrary: h) (simp_all add: valuesOf_Header_Add)

lemma valuesOf_addHeaders:
  "valuesOf (addHeaders l h hs) k =
     valuesOf h k @ concat (map snd (filter (\<lambda>e. CanonicalMIMEHeaderKey l (fst e) = k) hs))"
proof (induction hs arbitrary: h)
  case Nil
  show ?case by simp
next
  case (Cons e hs)
  obtain key vals where e: "e = (key, vals)" by (cases e)
  show ?case
    by (auto simp add: e Cons.IH valuesOf_addValues)
qed

lemma valuesOf_setRequestHeaders:
  "valuesOf (httpHeader (setRequestHeaders l r h req ct)) k =
     (if k = CanonicalMIMEHeaderKey l ''Accept'' then [''application/json; charset=utf-8'']
      else if k = CanonicalMIMEHeaderKey l ''Content-Type'' then [ct]
      else valuesOf (httpHeader h) k) @
     concat (map snd (filter (\<lambda>e. CanonicalMIMEHeaderKey l (fst e) = k) (Header req)))"
  by (simp add: setRequestHeaders_def Let_def valuesOf_addHeaders Header_Set_def valuesOf_update)

lemma httpBody_setRequestHeaders:
  "httpBody (setRequestHeaders l r h req ct) = httpBody h"
  by (simp add: setRequestHeaders_def Let_def)

lemma http_NewRequestWithContext_fields:
  assumes "http_NewRequestWithContext l ctx method url body = Inr h"
  shows "httpBody h = body" and "httpHeader h = []"
  using assms by (auto simp: http_NewRequestWithContext_def split: option.splits)

lemma requestJSON_body:
  assumes "callsOf (requestJSON l r ctx req) = [hr]"
  shows "Encode_requestQuery \<lparr>rqQuery = q req, rqVariables = vars req\<rparr> = Inr (httpBody hr)"
proof -
  from requestJSON_sent [OF assms] obtain body h0 where
    enc: "Encode_requestQuery \<lparr>rqQuery = q req, rqVariables = vars req\<rparr> = Inr body"
    and h0: "http_NewRequestWithContext l ctx ''POST'' (endpoint (client r)) body = Inr h0"
    and hr: "hr = (setRequestHeaders l r h0 req ''application/json; charset=utf-8'')\<lparr>httpCtx := ctx\<rparr>"
    by blast
  from hr have "httpBody hr = body"
    by (simp add: httpBody_setRequestHeaders http_NewRequestWithContext_fields(1) [OF h0])
  with enc show ?thesis by simp
qed

subsection \<open>The errors the steps build\<close>

lemma statusError_text:
  "statusError code = Errorf (''graphql: server returned a non-200 status code: '' @ Itoa code)"
  by (simp add: statusError_def ErrRequest_def)

lemma NewError_wraps:
  "NewError e ErrReadBody = Wrap e ''read body''"
  "NewError e ErrDecode = Wrap e ''decode''"
  "NewError e ErrCreateVariablesField = Wrap e ''create variables field''"
  "NewError e ErrEncodeVariablesField = Wrap e ''encode variables''"
  "NewError e ErrCreateFile = Wrap e ''create form file''"
  "NewError e ErrCopy = Wrap e ''copy''"
  by (simp_all add: NewError_def ErrReadBody_def ErrDecode_def ErrCreateVariablesField_def
      ErrEncodeVariablesField_def ErrCreateFile_def ErrCopy_def)

lemma writeVariables_wraps:
  assumes "writeVariables l w vs = Inl x"
  shows "(\<exists>c. x = Wrap c ''create variables field'') \<or> (\<exists>c. x = Wrap c ''encode variables'')"
  using assms
  by (auto simp: writeVariables_def NewError_wraps split: sum.splits)

lemma writeFiles_wraps:
  assumes "writeFiles l w fs = Inl x"
  shows "(\<exists>c. x = Wrap c ''create form file'') \<or> (\<exists>c. x = Wrap c ''copy'')"
  using assms
proof (induction fs arbitrary: w)
  case Nil
  then show ?case by simp
next
  case (Cons f fs)
  from Cons.prems show ?case
    by (auto simp: NewError_wraps split: sum.splits dest: Cons.IH)
qed

section \<open>The claims\<close>

text \<open>
  C1. A Request that carries at least one file, sent through a Requester whose Client
  has the multipart flag off, is answered at once with \<open>ErrInvalidInput\<close> and the zero
  Response, and the transport is not called: the list of network calls is empty.
\<close>

theorem files_without_multipart:
  assumes "files req \<noteq> []" and "\<not> useMultipartForm (client r)"
  shows "errorOf (Request l r ctx req) = Some ErrInvalidInput \<and>
         responseOf (Request l r ctx req) = zeroResponse l \<and>
         callsOf (Request l r ctx req) = []"
  using assms by (simp add: Request_def errorOf_def responseOf_def callsOf_def)

theorem files_without_multipart_witness:
  "files (File (NewRequest ''query {}'') ''file'' ''a.txt'' (Reader ''abc'' None)) \<noteq> [] \<and>
   \<not> useMultipartForm (client (NewRequester (testClient (server 200 (Reader bodyYes None))))) \<and>
   errorOf (Request testlib (NewRequester (testClient (server 200 (Reader bodyYes None)))) Background
      (File (NewRequest ''query {}'') ''file'' ''a.txt'' (Reader ''abc'' None))) = Some ErrInvalidInput \<and>
   callsOf (Request testlib (NewRequester (testClient (server 200 (Reader bodyYes None)))) Background
      (File (NewRequest ''query {}'') ''file'' ''a.txt'' (Reader ''abc'' None))) = []"
proof -
  have h1: "files (File (NewRequest ''query {}'') ''file'' ''a.txt'' (Reader ''abc'' None)) \<noteq> []"
    by (simp add: File_def NewRequest_def)
  have h2: "\<not> useMultipartForm (client (NewRequester (testClient (server 200 (Reader bodyYes None)))))"
    by (simp add: NewRequester_def testClient_def)
  from files_without_multipart [OF h1 h2, of testlib Background] h1 h2 show ?thesis
    by simp
qed

text \<open>
  C9. When a Request with files is only sent through a Client with the multipart flag
  on, the flag alone chooses the strategy: \<open>requestMultipart\<close> runs when it is on,
  whether or not there are files, and \<open>requestJSON\<close> when it is off.
\<close>

theorem strategy_by_flag:
  assumes "files req \<noteq> [] \<longrightarrow> useMultipartForm (client r)"
  shows "Request l r ctx req =
           (if useMultipartForm (client r) then requestMultipart l r ctx req
            else requestJSON l r ctx req)"
  using assms by (simp add: Request_def)

theorem strategy_by_flag_witness:
  "files (NewRequest ''query {}'') = [] \<and>
   useMultipartForm
     (client (NewRequester (UseMultipartForm (testClient (server 200 (Reader bodyYes None)))))) \<and>
   Request testlib (NewRequester (UseMultipartForm (testClient (server 200 (Reader bodyYes None)))))
      Background (NewRequest ''query {}'') =
   requestMultipart testlib
      (NewRequester (UseMultipartForm (testClient (server 200 (Reader bodyYes None)))))
      Background (NewRequest ''query {}'')"
proof -
  have e: "files (NewRequest ''query {}'') = []"
    by (simp add: NewRequest_def)
  have f: "useMultipartForm
      (client (NewRequester (UseMultipartForm (testClient (server 200 (Reader bodyYes None))))))"
    by (simp add: NewRequester_def UseMultipartForm_def testClient_def)
  have h: "files (NewRequest ''query {}'') \<noteq> [] \<longrightarrow> useMultipartForm
      (client (NewRequester (UseMultipartForm (testClient (server 200 (Reader bodyYes None))))))"
    using f by simp
  from strategy_by_flag [OF h, of testlib Background] e f show ?thesis
    by simp
qed

text \<open>
  C2. In the JSON strategy, when the body was read and decoding it fails: with a status
  other than 200 the error returned is the one made from the status code, whose text is
  the text of \<open>ErrRequest\<close>, a colon and the code, so for status 500 exactly
  "graphql: server returned a non-200 status code: 500", and the error of the decoder is
  dropped; with status 200 the error returned wraps the error of the decoder under
  "decoding response".
\<close>

theorem json_decode_failure:
  assumes "\<not> useMultipartForm (client r)"
    and "callsOf (Request l r ctx req) = [hr]"
    and "httpClient (client r) hr = Inr httpRes"
    and "io_ReadAll (Body httpRes) = (body, None)"
    and "Unmarshal l body (zeroResponse l) = (left, Some e)"
  shows "(StatusCode httpRes \<noteq> 200 \<longrightarrow>
            errorOf (Request l r ctx req) = Some (statusError (StatusCode httpRes)) \<and>
            Error (statusError (StatusCode httpRes)) =
              Error ErrRequest @ '': '' @ Itoa (StatusCode httpRes)) \<and>
         (StatusCode httpRes = 500 \<longrightarrow>
            (\<exists>x. errorOf (Request l r ctx req) = Some x \<and>
                 Error x = ''graphql: server returned a non-200 status code: 500'')) \<and>
         (StatusCode httpRes = 200 \<longrightarrow>
            errorOf (Request l r ctx req) = Some (Wrap e ''decoding response''))"
proof -
  from Request_answer_JSON [OF assms(1,2)] assms(3,4,5)
  have "errorOf (Request l r ctx req) =
          Some (if StatusCode httpRes \<noteq> 200 then statusError (StatusCode httpRes)
                else Wrap e ''decoding response'')"
    by (simp add: errorOf_def StatusOK_def)
  then show ?thesis
    using status_500_text by (simp add: statusError_def)
qed


theorem json_decode_failure_witness:
  "errorOf (Request testlib
      (NewRequester (testClient (server 500 (Reader ''Internal Server error'' None))))
      Background (NewRequest ''query {}'')) =
     Some (Errorf ''graphql: server returned a non-200 status code: 500'') \<and>
   errorOf (Request testlib
      (NewRequester (testClient (server 200 (Reader ''Internal Server error'' None))))
      Background (NewRequest ''query {}'')) =
     Some (Wrap (Lib ''invalid character'') ''decoding response'')"
proof -
  let ?b = "Reader ''Internal Server error'' None"
  let ?r5 = "NewRequester (testClient (server 500 ?b))"
  let ?r2 = "NewRequester (testClient (server 200 ?b))"
  let ?ret5 = "Request testlib ?r5 Background (NewRequest ''query {}'')"
  let ?ret2 = "Request testlib ?r2 Background (NewRequest ''query {}'')"
  have a5: "\<not> useMultipartForm (client ?r5)" and a2: "\<not> useMultipartForm (client ?r2)"
    by (simp_all add: NewRequester_def testClient_def)
  have b5: "callsOf ?ret5 = [hd (callsOf ?ret5)]" and b2: "callsOf ?ret2 = [hd (callsOf ?ret2)]"
    by code_simp+
  have c5: "httpClient (client ?r5) (hd (callsOf ?ret5)) = Inr \<lparr>StatusCode = 500, Body = ?b\<rparr>"
    and c2: "httpClient (client ?r2) (hd (callsOf ?ret2)) = Inr \<lparr>StatusCode = 200, Body = ?b\<rparr>"
    by (simp_all add: NewRequester_def testClient_def server_def)
  have d5: "io_ReadAll (Body \<lparr>StatusCode = 500, Body = ?b\<rparr>) = (''Internal Server error'', None)"
    and d2: "io_ReadAll (Body \<lparr>StatusCode = 200, Body = ?b\<rparr>) = (''Internal Server error'', None)"
    by simp_all
  have e: "Unmarshal testlib ''Internal Server error'' (zeroResponse testlib) =
             (zeroResponse testlib, Some (Lib ''invalid character''))"
    by code_simp
  from json_decode_failure [OF a5 b5 c5 d5 e] have "errorOf ?ret5 = Some (statusError 500)"
    by simp
  moreover from json_decode_failure [OF a2 b2 c2 d2 e]
  have "errorOf ?ret2 = Some (Wrap (Lib ''invalid character'') ''decoding response'')"
    by simp
  moreover have "statusError 500 = Errorf ''graphql: server returned a non-200 status code: 500''"
    by (simp add: statusError_def ErrRequest_def Itoa_def decimal.simps)
  ultimately show ?thesis by simp
qed

text \<open>
  C3. In the multipart strategy: when reading the body fails, the error returned is the
  one made from the status code, with the text "graphql: server returned a non-200 status
  code: " and the code, if the status is not 200, and the read error wrapped under "read
  body", the text of \<open>ErrReadBody\<close>, if it is 200; when the body was read and decoding
  it fails, the error returned is the error of the decoder wrapped under "decode", the text
  of \<open>ErrDecode\<close>, whatever the status.
\<close>

theorem multipart_failures:
  assumes "useMultipartForm (client r)"
    and "callsOf (Request l r ctx req) = [hr]"
    and "httpClient (client r) hr = Inr httpRes"
  shows "(io_ReadAll (Body httpRes) = (body, Some e) \<and> StatusCode httpRes \<noteq> 200 \<longrightarrow>
            errorOf (Request l r ctx req) =
              Some (Errorf (''graphql: server returned a non-200 status code: '' @
                            Itoa (StatusCode httpRes)))) \<and>
         (io_ReadAll (Body httpRes) = (body, Some e) \<and> StatusCode httpRes = 200 \<longrightarrow>
            errorOf (Request l r ctx req) = Some (Wrap e ''read body'') \<and>
            Error (Wrap e ''read body'') = ''read body: '' @ Error e) \<and>
         (io_ReadAll (Body httpRes) = (body, None) \<and>
          Unmarshal l body (zeroResponse l) = (left, Some e) \<longrightarrow>
            errorOf (Request l r ctx req) = Some (Wrap e ''decode'') \<and>
            Error (Wrap e ''decode'') = ''decode: '' @ Error e)"
  using Request_answer_Multipart [OF assms(1,2)] assms(3)
  by (simp add: errorOf_def StatusOK_def statusError_text NewError_wraps)

theorem multipart_failures_witness:
  "errorOf (Request testlib
      (NewRequester (UseMultipartForm (testClient (server 502 (Reader ''{'' (Some (Lib ''unexpected EOF'')))))))
      Background (NewRequest ''query {}'')) =
     Some (Errorf ''graphql: server returned a non-200 status code: 502'') \<and>
   errorOf (Request testlib
      (NewRequester (UseMultipartForm (testClient (server 200 (Reader ''{'' (Some (Lib ''unexpected EOF'')))))))
      Background (NewRequest ''query {}'')) = Some (Wrap (Lib ''unexpected EOF'') ''read body'') \<and>
   errorOf (Request testlib
      (NewRequester (UseMultipartForm (testClient (server 500 (Reader ''Internal Server error'' None)))))
      Background (NewRequest ''query {}'')) = Some (Wrap (Lib ''invalid character'') ''decode'')"
proof -
  let ?cut = "Reader ''{'' (Some (Lib ''unexpected EOF''))"
  let ?txt = "Reader ''Internal Server error'' None"
  let ?r1 = "NewRequester (UseMultipartForm (testClient (server 502 ?cut)))"
  let ?r2 = "NewRequester (UseMultipartForm (testClient (server 200 ?cut)))"
  let ?r3 = "NewRequester (UseMultipartForm (testClient (server 500 ?txt)))"
  let ?ret1 = "Request testlib ?r1 Background (NewRequest ''query {}'')"
  let ?ret2 = "Request testlib ?r2 Background (NewRequest ''query {}'')"
  let ?ret3 = "Request testlib ?r3 Background (NewRequest ''query {}'')"
  have a: "useMultipartForm (client ?r1)" "useMultipartForm (client ?r2)"
    "useMultipartForm (client ?r3)"
    by (simp_all add: NewRequester_def testClient_def UseMultipartForm_def)
  have b: "callsOf ?ret1 = [hd (callsOf ?ret1)]" "callsOf ?ret2 = [hd (callsOf ?ret2)]"
    "callsOf ?ret3 = [hd (callsOf ?ret3)]"
    by code_simp+
  have c: "httpClient (client ?r1) (hd (callsOf ?ret1)) = Inr \<lparr>StatusCode = 502, Body = ?cut\<rparr>"
    "httpClient (client ?r2) (hd (callsOf ?ret2)) = Inr \<lparr>StatusCode = 200, Body = ?cut\<rparr>"
    "httpClient (client ?r3) (hd (callsOf ?ret3)) = Inr \<lparr>StatusCode = 500, Body = ?txt\<rparr>"
    by (simp_all add: NewRequester_def testClient_def server_def UseMultipartForm_def)
  have e: "Unmarshal testlib ''Internal Server error'' (zeroResponse testlib) =
             (zeroResponse testlib, Some (Lib ''invalid character''))"
    by code_simp
  have i: "Itoa 502 = ''502''"
    by (simp add: Itoa_def decimal.simps)
  from multipart_failures [OF a(1) b(1) c(1), of "''{''" "Lib ''unexpected EOF''"]
  have "errorOf ?ret1 = Some (Errorf ''graphql: server returned a non-200 status code: 502'')"
    by (simp add: i)
  moreover from multipart_failures [OF a(2) b(2) c(2), of "''{''" "Lib ''unexpected EOF''"]
  have "errorOf ?ret2 = Some (Wrap (Lib ''unexpected EOF'') ''read body'')" by simp
  moreover from multipart_failures [OF a(3) b(3) c(3),
      of "''Internal Server error''" "Lib ''invalid character''" "zeroResponse testlib"] e
  have "errorOf ?ret3 = Some (Wrap (Lib ''invalid character'') ''decode'')" by simp
  ultimately show ?thesis by simp
qed

text \<open>
  C4. In both strategies, when the body was read and decodes, the call returns the
  decoded Response and the nil error, whatever the status code and whatever the entries
  of \<open>Errors\<close> in the decoded Response.
\<close>

theorem decoded_response_returned:
  assumes "callsOf (Request l r ctx req) = [hr]"
    and "httpClient (client r) hr = Inr httpRes"
    and "io_ReadAll (Body httpRes) = (body, None)"
    and "Unmarshal l body (zeroResponse l) = (decoded, None)"
  shows "responseOf (Request l r ctx req) = decoded \<and> errorOf (Request l r ctx req) = None"
proof (cases "useMultipartForm (client r)")
  case True
  from Request_answer_Multipart [OF True assms(1)] assms(2,3,4) show ?thesis
    by (simp add: responseOf_def errorOf_def)
next
  case False
  from Request_answer_JSON [OF False assms(1)] assms(2,3,4) show ?thesis
    by (simp add: responseOf_def errorOf_def)
qed

theorem decoded_response_returned_witness:
  "Errors (responseOf (Request testlib
      (NewRequester (testClient (server 200 (Reader bodyExtension None))))
      Background (NewRequest ''query {}''))) =
     [\<lparr>Message = ''bad request'',
       Extensions = \<lparr>extMessage = ''extension error'', extCode = 400\<rparr>\<rparr>] \<and>
   errorOf (Request testlib
      (NewRequester (testClient (server 200 (Reader bodyExtension None))))
      Background (NewRequest ''query {}'')) = None \<and>
   Data (responseOf (Request testlib
      (NewRequester (UseMultipartForm (testClient (server 500 (Reader bodyYes None)))))
      Background (NewRequest ''query {}''))) = \<lparr>Something = ''yes''\<rparr> \<and>
   errorOf (Request testlib
      (NewRequester (UseMultipartForm (testClient (server 500 (Reader bodyYes None)))))
      Background (NewRequest ''query {}'')) = None"
proof -
  let ?r1 = "NewRequester (testClient (server 200 (Reader bodyExtension None)))"
  let ?r2 = "NewRequester (UseMultipartForm (testClient (server 500 (Reader bodyYes None))))"
  let ?ret1 = "Request testlib ?r1 Background (NewRequest ''query {}'')"
  let ?ret2 = "Request testlib ?r2 Background (NewRequest ''query {}'')"
  let ?d1 = "\<lparr>Data = \<lparr>Something = []\<rparr>,
              Errors = [\<lparr>Message = ''bad request'',
                          Extensions = \<lparr>extMessage = ''extension error'', extCode = 400\<rparr>\<rparr>]\<rparr>"
  let ?d2 = "\<lparr>Data = \<lparr>Something = ''yes''\<rparr>, Errors = []\<rparr> :: (testData, testErrorExtension) Response"
  have b: "callsOf ?ret1 = [hd (callsOf ?ret1)]" "callsOf ?ret2 = [hd (callsOf ?ret2)]"
    by code_simp+
  have c: "httpClient (client ?r1) (hd (callsOf ?ret1)) =
             Inr \<lparr>StatusCode = 200, Body = Reader bodyExtension None\<rparr>"
    "httpClient (client ?r2) (hd (callsOf ?ret2)) =
             Inr \<lparr>StatusCode = 500, Body = Reader bodyYes None\<rparr>"
    by (simp_all add: NewRequester_def testClient_def server_def UseMultipartForm_def)
  have d: "io_ReadAll (Body \<lparr>StatusCode = 200, Body = Reader bodyExtension None\<rparr>) = (bodyExtension, None)"
    "io_ReadAll (Body \<lparr>StatusCode = 500, Body = Reader bodyYes None\<rparr>) = (bodyYes, None)"
    by simp_all
  have e: "Unmarshal testlib bodyExtension (zeroResponse testlib) = (?d1, None)"
    "Unmarshal testlib bodyYes (zeroResponse testlib) = (?d2, None)"
    by code_simp+
  from decoded_response_returned [OF b(1) c(1) d(1) e(1)]
    decoded_response_returned [OF b(2) c(2) d(2) e(2)]
  show ?thesis by simp
qed

text \<open>
  C10. In the JSON strategy, when reading the body fails, the error returned is the read
  error wrapped under \<open>ErrReadBody\<close>, whatever the status code; it is never the error
  made from a status code.
\<close>

theorem json_read_failure:
  assumes "\<not> useMultipartForm (client r)"
    and "callsOf (Request l r ctx req) = [hr]"
    and "httpClient (client r) hr = Inr httpRes"
    and "io_ReadAll (Body httpRes) = (body, Some e)"
  shows "errorOf (Request l r ctx req) = Some (NewError e ErrReadBody) \<and>
         errorOf (Request l r ctx req) \<noteq> Some (statusError code)"
  using Request_answer_JSON [OF assms(1,2)] assms(3,4)
  by (simp add: errorOf_def NewError_def statusError_def)

theorem json_read_failure_witness:
  "errorOf (Request testlib
      (NewRequester (testClient (server 502 (Reader ''{'' (Some (Lib ''unexpected EOF''))))))
      Background (NewRequest ''query {}'')) = Some (Wrap (Lib ''unexpected EOF'') ''read body'') \<and>
   errorOf (Request testlib
      (NewRequester (testClient (server 502 (Reader ''{'' (Some (Lib ''unexpected EOF''))))))
      Background (NewRequest ''query {}'')) \<noteq> Some (statusError 502)"
proof -
  let ?cut = "Reader ''{'' (Some (Lib ''unexpected EOF''))"
  let ?r = "NewRequester (testClient (server 502 ?cut))"
  let ?ret = "Request testlib ?r Background (NewRequest ''query {}'')"
  have a: "\<not> useMultipartForm (client ?r)"
    by (simp add: NewRequester_def testClient_def)
  have b: "callsOf ?ret = [hd (callsOf ?ret)]"
    by code_simp
  have c: "httpClient (client ?r) (hd (callsOf ?ret)) = Inr \<lparr>StatusCode = 502, Body = ?cut\<rparr>"
    by (simp add: NewRequester_def testClient_def server_def)
  have d: "io_ReadAll (Body \<lparr>StatusCode = 502, Body = ?cut\<rparr>) = (''{'', Some (Lib ''unexpected EOF''))"
    by simp
  from json_read_failure [OF a b c d, of 502] show ?thesis
    by (simp add: NewError_def ErrReadBody_def statusError_def)
qed

text \<open>
  C6. In both strategies, once every step of building the request has passed, one request
  is handed to the transport, and under each key its header holds the computed value
  first (\<^verbatim>\<open>Accept\<close>, and as \<^verbatim>\<open>Content-Type\<close> the JSON content type or the content type of
  the multipart writer whose bytes are the body), followed by the values the Request's
  header holds for that key, added in order and replacing nothing: a header of the caller
  is there as given, and a \<^verbatim>\<open>Content-Type\<close> of the caller comes after the computed one
  under the same key. Every request sent is of this form.
\<close>

theorem outbound_headers:
  "(\<not> useMultipartForm (client r) \<and> files req = [] \<and>
    Encode_requestQuery \<lparr>rqQuery = q req, rqVariables = vars req\<rparr> = Inr body \<and>
    http_NewRequestWithContext l ctx ''POST'' (endpoint (client r)) body = Inr h0 \<longrightarrow>
      (\<exists>hr. callsOf (Request l r ctx req) = [hr] \<and> httpBody hr = body \<and>
         (\<forall>k. valuesOf (httpHeader hr) k =
            (if k = CanonicalMIMEHeaderKey l ''Accept'' then [''application/json; charset=utf-8'']
             else if k = CanonicalMIMEHeaderKey l ''Content-Type''
               then [''application/json; charset=utf-8'']
             else []) @
            concat (map snd (filter (\<lambda>e. CanonicalMIMEHeaderKey l (fst e) = k) (Header req)))))) \<and>
   (useMultipartForm (client r) \<and>
    WriteField l (NewWriter l) ''query'' (Query_String (q req)) = Inr w1 \<and>
    (if lenVars (vars req) > 0 then writeVariables l w1 (vars req) else Inr w1) = Inr w2 \<and>
    writeFiles l w2 (files req) = Inr w3 \<and>
    Close l w3 = Inr writer \<and>
    http_NewRequestWithContext l ctx ''POST'' (endpoint (client r)) (Bytes l writer) = Inr g0 \<longrightarrow>
      (\<exists>hr. callsOf (Request l r ctx req) = [hr] \<and> httpBody hr = Bytes l writer \<and>
         (\<forall>k. valuesOf (httpHeader hr) k =
            (if k = CanonicalMIMEHeaderKey l ''Accept'' then [''application/json; charset=utf-8'']
             else if k = CanonicalMIMEHeaderKey l ''Content-Type''
               then [FormDataContentType l writer]
             else []) @
            concat (map snd (filter (\<lambda>e. CanonicalMIMEHeaderKey l (fst e) = k) (Header req)))))) \<and>
   (callsOf (Request l r ctx req) = [sent] \<longrightarrow>
      (\<exists>ct. (if useMultipartForm (client r)
              then \<exists>v1 v2 v3 closed.
                     WriteField l (NewWriter l) ''query'' (Query_String (q req)) = Inr v1 \<and>
                     (if lenVars (vars req) > 0 then writeVariables l v1 (vars req) else Inr v1) =
                       Inr v2 \<and>
                     writeFiles l v2 (files req) = Inr v3 \<and>
                     Close l v3 = Inr closed \<and>
                     httpBody sent = Bytes l closed \<and> ct = FormDataContentType l closed
              else ct = ''application/json; charset=utf-8'') \<and>
         (\<forall>k. valuesOf (httpHeader sent) k =
            (if k = CanonicalMIMEHeaderKey l ''Accept'' then [''application/json; charset=utf-8'']
             else if k = CanonicalMIMEHeaderKey l ''Content-Type'' then [ct]
             else []) @
            concat (map snd (filter (\<lambda>e. CanonicalMIMEHeaderKey l (fst e) = k) (Header req))))))"
proof (intro conjI impI)
  assume a: "\<not> useMultipartForm (client r) \<and> files req = [] \<and>
    Encode_requestQuery \<lparr>rqQuery = q req, rqVariables = vars req\<rparr> = Inr body \<and>
    http_NewRequestWithContext l ctx ''POST'' (endpoint (client r)) body = Inr h0"
  let ?hr = "(setRequestHeaders l r h0 req ''application/json; charset=utf-8'')\<lparr>httpCtx := ctx\<rparr>"
  from a have enc: "Encode_requestQuery \<lparr>rqQuery = q req, rqVariables = vars req\<rparr> = Inr body"
    and h0: "http_NewRequestWithContext l ctx ''POST'' (endpoint (client r)) body = Inr h0"
    by simp_all
  from a have "Request l r ctx req = requestJSON l r ctx req"
    by (simp add: Request_def)
  then have "callsOf (Request l r ctx req) = [?hr]"
    by (simp add: requestJSON_late [OF enc h0 refl] callsOf_def)
  moreover have "httpBody ?hr = body"
    by (simp add: httpBody_setRequestHeaders http_NewRequestWithContext_fields(1) [OF h0])
  moreover have "valuesOf (httpHeader h0) k = []" for k
    by (simp add: http_NewRequestWithContext_fields(2) [OF h0] valuesOf_def)
  then have "\<forall>k. valuesOf (httpHeader ?hr) k =
            (if k = CanonicalMIMEHeaderKey l ''Accept'' then [''application/json; charset=utf-8'']
             else if k = CanonicalMIMEHeaderKey l ''Content-Type''
               then [''application/json; charset=utf-8'']
             else []) @
            concat (map snd (filter (\<lambda>e. CanonicalMIMEHeaderKey l (fst e) = k) (Header req)))"
    by (simp add: valuesOf_setRequestHeaders)
  ultimately show "\<exists>hr. callsOf (Request l r ctx req) = [hr] \<and> httpBody hr = body \<and>
         (\<forall>k. valuesOf (httpHeader hr) k =
            (if k = CanonicalMIMEHeaderKey l ''Accept'' then [''application/json; charset=utf-8'']
             else if k = CanonicalMIMEHeaderKey l ''Content-Type''
               then [''application/json; charset=utf-8'']
             else []) @
            concat (map snd (filter (\<lambda>e. CanonicalMIMEHeaderKey l (fst e) = k) (Header req))))"
    by blast
next
  assume a: "useMultipartForm (client r) \<and>
    WriteField l (NewWriter l) ''query'' (Query_String (q req)) = Inr w1 \<and>
    (if lenVars (vars req) > 0 then writeVariables l w1 (vars req) else Inr w1) = Inr w2 \<and>
    writeFiles l w2 (files req) = Inr w3 \<and>
    Close l w3 = Inr writer \<and>
    http_NewRequestWithContext l ctx ''POST'' (endpoint (client r)) (Bytes l writer) = Inr g0"
  let ?hr = "setRequestHeaders l r g0 req (FormDataContentType l writer)"
  from a have mp: "useMultipartForm (client r)"
    and w1: "WriteField l (NewWriter l) ''query'' (Query_String (q req)) = Inr w1"
    and w2: "(if lenVars (vars req) > 0 then writeVariables l w1 (vars req) else Inr w1) = Inr w2"
    and w3: "writeFiles l w2 (files req) = Inr w3"
    and wr: "Close l w3 = Inr writer"
    and g0: "http_NewRequestWithContext l ctx ''POST'' (endpoint (client r)) (Bytes l writer) = Inr g0"
    by simp_all
  have "callsOf (Request l r ctx req) = [?hr]"
    unfolding Request_Multipart [OF mp]
    by (simp add: requestMultipart_late [OF w1 w2 w3 wr g0 refl] callsOf_def)
  moreover have "httpBody ?hr = Bytes l writer"
    by (simp add: httpBody_setRequestHeaders http_NewRequestWithContext_fields(1) [OF g0])
  moreover have "valuesOf (httpHeader g0) k = []" for k
    by (simp add: http_NewRequestWithContext_fields(2) [OF g0] valuesOf_def)
  then have "\<forall>k. valuesOf (httpHeader ?hr) k =
            (if k = CanonicalMIMEHeaderKey l ''Accept'' then [''application/json; charset=utf-8'']
             else if k = CanonicalMIMEHeaderKey l ''Content-Type''
               then [FormDataContentType l writer]
             else []) @
            concat (map snd (filter (\<lambda>e. CanonicalMIMEHeaderKey l (fst e) = k) (Header req)))"
    by (simp add: valuesOf_setRequestHeaders)
  ultimately show "\<exists>hr. callsOf (Request l r ctx req) = [hr] \<and> httpBody hr = Bytes l writer \<and>
         (\<forall>k. valuesOf (httpHeader hr) k =
            (if k = CanonicalMIMEHeaderKey l ''Accept'' then [''application/json; charset=utf-8'']
             else if k = CanonicalMIMEHeaderKey l ''Content-Type''
               then [FormDataContentType l writer]
             else []) @
            concat (map snd (filter (\<lambda>e. CanonicalMIMEHeaderKey l (fst e) = k) (Header req))))"
    by blast
next
  assume sent: "callsOf (Request l r ctx req) = [sent]"
  show "\<exists>ct. (if useMultipartForm (client r)
              then \<exists>v1 v2 v3 closed.
                     WriteField l (NewWriter l) ''query'' (Query_String (q req)) = Inr v1 \<and>
                     (if lenVars (vars req) > 0 then writeVariables l v1 (vars req) else Inr v1) =
                       Inr v2 \<and>
                     writeFiles l v2 (files req) = Inr v3 \<and>
                     Close l v3 = Inr closed \<and>
                     httpBody sent = Bytes l closed \<and> ct = FormDataContentType l closed
              else ct = ''application/json; charset=utf-8'') \<and>
         (\<forall>k. valuesOf (httpHeader sent) k =
            (if k = CanonicalMIMEHeaderKey l ''Accept'' then [''application/json; charset=utf-8'']
             else if k = CanonicalMIMEHeaderKey l ''Content-Type'' then [ct]
             else []) @
            concat (map snd (filter (\<lambda>e. CanonicalMIMEHeaderKey l (fst e) = k) (Header req))))"
  proof (cases "useMultipartForm (client r)")
    case True
    from sent have "callsOf (requestMultipart l r ctx req) = [sent]"
      unfolding Request_Multipart [OF True] .
    from requestMultipart_sent [OF this] obtain v1 v2 v3 closed g where
      v: "WriteField l (NewWriter l) ''query'' (Query_String (q req)) = Inr v1"
      "(if lenVars (vars req) > 0 then writeVariables l v1 (vars req) else Inr v1) = Inr v2"
      "writeFiles l v2 (files req) = Inr v3"
      "Close l v3 = Inr closed"
      and g: "http_NewRequestWithContext l ctx ''POST'' (endpoint (client r)) (Bytes l closed) = Inr g"
      and hr: "sent = setRequestHeaders l r g req (FormDataContentType l closed)"
      by blast
    have b: "httpBody sent = Bytes l closed"
      by (simp add: hr httpBody_setRequestHeaders http_NewRequestWithContext_fields(1) [OF g])
    have "valuesOf (httpHeader g) k = []" for k
      by (simp add: http_NewRequestWithContext_fields(2) [OF g] valuesOf_def)
    then have "\<forall>k. valuesOf (httpHeader sent) k =
            (if k = CanonicalMIMEHeaderKey l ''Accept'' then [''application/json; charset=utf-8'']
             else if k = CanonicalMIMEHeaderKey l ''Content-Type''
               then [FormDataContentType l closed]
             else []) @
            concat (map snd (filter (\<lambda>e. CanonicalMIMEHeaderKey l (fst e) = k) (Header req)))"
      by (simp add: hr valuesOf_setRequestHeaders)
    with True v b show ?thesis
      by auto
  next
    case False
    from sent have "callsOf (requestJSON l r ctx req) = [sent]"
      unfolding Request_sent_JSON [OF False sent] .
    from requestJSON_sent [OF this] obtain b g where
      g: "http_NewRequestWithContext l ctx ''POST'' (endpoint (client r)) b = Inr g"
      and hr: "sent = (setRequestHeaders l r g req ''application/json; charset=utf-8'')\<lparr>httpCtx := ctx\<rparr>"
      by blast
    have "valuesOf (httpHeader g) k = []" for k
      by (simp add: http_NewRequestWithContext_fields(2) [OF g] valuesOf_def)
    with False hr show ?thesis
      by (simp add: valuesOf_setRequestHeaders)
  qed
qed


theorem outbound_headers_witness:
  "(\<exists>hr. callsOf (Request testlib
             (NewRequester (testClient (server 200 (Reader bodyYes None)))) Background
             ((NewRequest ''query {}'')\<lparr>Header :=
                [(''content-type'', [''text/plain'']), (''Authorization'', [''Bearer token''])]\<rparr>)) = [hr] \<and>
         valuesOf (httpHeader hr) ''Content-Type'' =
           [''application/json; charset=utf-8'', ''text/plain''] \<and>
         valuesOf (httpHeader hr) ''Authorization'' = [''Bearer token''] \<and>
         valuesOf (httpHeader hr) ''Accept'' = [''application/json; charset=utf-8'']) \<and>
   (\<exists>hr. callsOf (Request testlib
             (NewRequester (UseMultipartForm (testClient (server 200 (Reader bodyYes None)))))
             Background
             ((NewRequest ''query {}'')\<lparr>Header :=
                [(''content-type'', [''text/plain'']), (''Authorization'', [''Bearer token''])]\<rparr>)) = [hr] \<and>
         httpBody hr = ''query=query {}&--'' \<and>
         valuesOf (httpHeader hr) ''Content-Type'' =
           [''multipart/form-data; boundary=b'', ''text/plain''] \<and>
         valuesOf (httpHeader hr) ''Authorization'' = [''Bearer token''] \<and>
         valuesOf (httpHeader hr) ''Accept'' = [''application/json; charset=utf-8''])"
proof -
  let ?rj = "NewRequester (testClient (server 200 (Reader bodyYes None)))"
  let ?rm = "NewRequester (UseMultipartForm (testClient (server 200 (Reader bodyYes None))))"
  let ?h = "[(''content-type'', [''text/plain'']), (''Authorization'', [''Bearer token''])]"
  let ?req = "(NewRequest ''query {}'')\<lparr>Header := ?h\<rparr>"
  let ?body = "projr (Encode_requestQuery \<lparr>rqQuery = q ?req, rqVariables = vars ?req\<rparr>)"
  let ?hz = "projr (http_NewRequestWithContext testlib Background ''POST'' (endpoint (client ?rj)) ?body)"
  let ?wa = "projr (WriteField testlib (NewWriter testlib) ''query'' (Query_String (q ?req)))"
  let ?wc = "projr (writeFiles testlib ?wa (files ?req))"
  let ?wr = "projr (Close testlib ?wc)"
  let ?gz = "projr (http_NewRequestWithContext testlib Background ''POST'' (endpoint (client ?rm))
                     (Bytes testlib ?wr))"
  have k: "CanonicalMIMEHeaderKey testlib ''Accept'' = ''Accept''"
    "CanonicalMIMEHeaderKey testlib ''Content-Type'' = ''Content-Type''"
    "CanonicalMIMEHeaderKey testlib ''content-type'' = ''Content-Type''"
    "CanonicalMIMEHeaderKey testlib ''Authorization'' = ''Authorization''"
    by code_simp+
  have h: "Header ?req = ?h"
    by (simp add: NewRequest_def)
  have j: "\<not> useMultipartForm (client ?rj) \<and> files ?req = [] \<and>
      Encode_requestQuery \<lparr>rqQuery = q ?req, rqVariables = vars ?req\<rparr> = Inr ?body \<and>
      http_NewRequestWithContext testlib Background ''POST'' (endpoint (client ?rj)) ?body = Inr ?hz"
    by code_simp
  have m: "useMultipartForm (client ?rm) \<and>
      WriteField testlib (NewWriter testlib) ''query'' (Query_String (q ?req)) = Inr ?wa \<and>
      (if lenVars (vars ?req) > 0 then writeVariables testlib ?wa (vars ?req) else Inr ?wa) = Inr ?wa \<and>
      writeFiles testlib ?wa (files ?req) = Inr ?wc \<and>
      Close testlib ?wc = Inr ?wr \<and>
      http_NewRequestWithContext testlib Background ''POST'' (endpoint (client ?rm))
        (Bytes testlib ?wr) = Inr ?gz"
    by code_simp
  have ct: "FormDataContentType testlib ?wr = ''multipart/form-data; boundary=b''"
    by code_simp
  have bt: "Bytes testlib ?wr = ''query=query {}&--''"
    by code_simp
  from outbound_headers [of ?rj ?req ?body testlib Background ?hz] j obtain hj where
    cj: "callsOf (Request testlib ?rj Background ?req) = [hj]"
    and vj: "\<And>k. valuesOf (httpHeader hj) k =
            (if k = CanonicalMIMEHeaderKey testlib ''Accept'' then [''application/json; charset=utf-8'']
             else if k = CanonicalMIMEHeaderKey testlib ''Content-Type''
               then [''application/json; charset=utf-8'']
             else []) @
            concat (map snd (filter (\<lambda>e. CanonicalMIMEHeaderKey testlib (fst e) = k) (Header ?req)))"
    by blast
  have J: "valuesOf (httpHeader hj) ''Content-Type'' =
           [''application/json; charset=utf-8'', ''text/plain''] \<and>
         valuesOf (httpHeader hj) ''Authorization'' = [''Bearer token''] \<and>
         valuesOf (httpHeader hj) ''Accept'' = [''application/json; charset=utf-8'']"
    unfolding vj h by (simp add: k)
  from outbound_headers [of ?rm ?req _ testlib Background _ ?wa ?wa ?wc ?wr ?gz] m obtain hm where
    cm: "callsOf (Request testlib ?rm Background ?req) = [hm]"
    and bm: "httpBody hm = Bytes testlib ?wr"
    and vm: "\<And>k. valuesOf (httpHeader hm) k =
            (if k = CanonicalMIMEHeaderKey testlib ''Accept'' then [''application/json; charset=utf-8'']
             else if k = CanonicalMIMEHeaderKey testlib ''Content-Type''
               then [FormDataContentType testlib ?wr]
             else []) @
            concat (map snd (filter (\<lambda>e. CanonicalMIMEHeaderKey testlib (fst e) = k) (Header ?req)))"
    by blast
  have B: "httpBody hm = ''query=query {}&--''"
    by (simp only: bm bt)
  have M: "valuesOf (httpHeader hm) ''Content-Type'' =
           [''multipart/form-data; boundary=b'', ''text/plain''] \<and>
         valuesOf (httpHeader hm) ''Authorization'' = [''Bearer token''] \<and>
         valuesOf (httpHeader hm) ''Accept'' = [''application/json; charset=utf-8'']"
    unfolding vm h ct by (simp add: k)
  from cj J cm B M show ?thesis
    by blast
qed

text \<open>
  C5. For a Request on which no variable was set, so that its variables are the nil map,
  the body the JSON strategy writes, and sends, is the object with the query and with
  \<^verbatim>\<open>"variables":null\<close>: the field is the literal \<^verbatim>\<open>null\<close>, not an empty object.
\<close>

theorem unset_variables_null:
  assumes "vars req = None"
  shows \<open>Encode_requestQuery \<lparr>rqQuery = q req, rqVariables = vars req\<rparr> =
           Inr (''{"query":'' @ appendString (q req) @ '',"variables":null}'' @ [CHR 0x0A]) \<and>
         (callsOf (requestJSON l r ctx req) = [hr] \<longrightarrow>
            httpBody hr = ''{"query":'' @ appendString (q req) @ '',"variables":null}'' @ [CHR 0x0A])\<close>
proof -
  have enc: \<open>Encode_requestQuery \<lparr>rqQuery = q req, rqVariables = vars req\<rparr> =
           Inr (''{"query":'' @ appendString (q req) @ '',"variables":null}'' @ [CHR 0x0A])\<close>
    by (simp add: Encode_requestQuery_def marshalVariables_def assms)
  moreover have "httpBody hr = x" if "callsOf (requestJSON l r ctx req) = [hr]"
    and "Encode_requestQuery \<lparr>rqQuery = q req, rqVariables = vars req\<rparr> = Inr x" for x
    using requestJSON_body [OF that(1)] that(2) by simp
  ultimately show ?thesis by blast
qed

theorem unset_variables_null_witness:
  \<open>vars (NewRequest ''query {}'') = None \<and>
   (\<exists>hr. callsOf (requestJSON testlib
             (NewRequester (testClient (server 200 (Reader bodyYes None)))) Background
             (NewRequest ''query {}'')) = [hr] \<and>
         httpBody hr = ''{"query":"query {}","variables":null}'' @ [CHR 0x0A])\<close>
proof -
  let ?r = "NewRequester (testClient (server 200 (Reader bodyYes None)))"
  let ?ret = "requestJSON testlib ?r Background (NewRequest ''query {}'')"
  have a: "vars (NewRequest ''query {}'') = None"
    by (simp add: NewRequest_def)
  have b: "callsOf ?ret = [hd (callsOf ?ret)]"
    by code_simp
  have c: \<open>appendString (q (NewRequest ''query {}'')) = ''"query {}"''\<close>
    by code_simp
  from unset_variables_null [OF a, of testlib ?r Background "hd (callsOf ?ret)"]
  have \<open>callsOf ?ret = [hd (callsOf ?ret)] \<longrightarrow>
         httpBody (hd (callsOf ?ret)) = ''{"query":"query {}","variables":null}'' @ [CHR 0x0A]\<close>
    by (simp add: c)
  from mp [OF this b] a b show ?thesis
    by (intro conjI exI [of _ "hd (callsOf ?ret)"])
qed

text \<open>
  C7, as stated, fails. For the Request with the query \<^verbatim>\<open>query {}\<close> and the one variable
  \<^verbatim>\<open>username = "testUser"\<close>, the body written is not the string
  \<^verbatim>\<open>{"query":"query {}","variables":{"username":"testUser"}}\<close> itself: \<^verbatim>\<open>Encode\<close> ends the
  document with a newline, and the test of the repository expects the newline.
\<close>

theorem body_with_variable_counterexample:
  \<open>Encode_requestQuery
     \<lparr>rqQuery = q (Var (NewRequest ''query {}'') ''username'' (GString ''testUser'')),
      rqVariables = vars (Var (NewRequest ''query {}'') ''username'' (GString ''testUser''))\<rparr> \<noteq>
   Inr ''{"query":"query {}","variables":{"username":"testUser"}}'' \<and>
   map httpBody (callsOf (Request testlib
      (NewRequester (testClient (server 200 (Reader bodyYes None)))) Background
      (Var (NewRequest ''query {}'') ''username'' (GString ''testUser'')))) \<noteq>
   [''{"query":"query {}","variables":{"username":"testUser"}}'']\<close>
  by code_simp

text \<open>
  C7, amended. For that Request the body the JSON strategy writes, and sends, is the
  string \<^verbatim>\<open>{"query":"query {}","variables":{"username":"testUser"}}\<close> followed by one
  newline.
\<close>

theorem body_with_variable:
  \<open>Encode_requestQuery
     \<lparr>rqQuery = q (Var (NewRequest ''query {}'') ''username'' (GString ''testUser'')),
      rqVariables = vars (Var (NewRequest ''query {}'') ''username'' (GString ''testUser''))\<rparr> =
   Inr (''{"query":"query {}","variables":{"username":"testUser"}}'' @ [CHR 0x0A]) \<and>
   (callsOf (requestJSON l r ctx (Var (NewRequest ''query {}'') ''username'' (GString ''testUser''))) = [hr]
      \<longrightarrow> httpBody hr = ''{"query":"query {}","variables":{"username":"testUser"}}'' @ [CHR 0x0A])\<close>
proof -
  have enc: \<open>Encode_requestQuery
     \<lparr>rqQuery = q (Var (NewRequest ''query {}'') ''username'' (GString ''testUser'')),
      rqVariables = vars (Var (NewRequest ''query {}'') ''username'' (GString ''testUser''))\<rparr> =
   Inr (''{"query":"query {}","variables":{"username":"testUser"}}'' @ [CHR 0x0A])\<close>
    by code_simp
  moreover have "httpBody hr = x"
    if "callsOf (requestJSON l r ctx (Var (NewRequest ''query {}'') ''username'' (GString ''testUser''))) = [hr]"
    and "Encode_requestQuery
     \<lparr>rqQuery = q (Var (NewRequest ''query {}'') ''username'' (GString ''testUser'')),
      rqVariables = vars (Var (NewRequest ''query {}'') ''username'' (GString ''testUser''))\<rparr> = Inr x" for x
    using requestJSON_body [OF that(1)] that(2) by simp
  ultimately show ?thesis by blast
qed

theorem body_with_variable_witness:
  \<open>\<exists>hr. callsOf (requestJSON testlib
            (NewRequester (testClient (server 200 (Reader bodyYes None)))) Background
            (Var (NewRequest ''query {}'') ''username'' (GString ''testUser''))) = [hr] \<and>
        httpBody hr = ''{"query":"query {}","variables":{"username":"testUser"}}'' @ [CHR 0x0A]\<close>
proof -
  let ?r = "NewRequester (testClient (server 200 (Reader bodyYes None)))"
  let ?ret = "requestJSON testlib ?r Background
      (Var (NewRequest ''query {}'') ''username'' (GString ''testUser''))"
  have b: "callsOf ?ret = [hd (callsOf ?ret)]"
    by code_simp
  from body_with_variable [of testlib ?r Background "hd (callsOf ?ret)"]
  have \<open>callsOf ?ret = [hd (callsOf ?ret)] \<longrightarrow> httpBody (hd (callsOf ?ret)) =
          ''{"query":"query {}","variables":{"username":"testUser"}}'' @ [CHR 0x0A]\<close>
    by (rule conjunct2)
  from mp [OF this b] b show ?thesis
    by (intro conjI exI [of _ "hd (callsOf ?ret)"])
qed

text \<open>
  C8, as stated, fails. When the transport refuses the connection, the call returns the
  error of the transport as it is, and that error is in none of the named categories;
  when a body sent with status 200 does not decode, the JSON strategy wraps the error of
  the decoder under "decoding response", which is not the text of a named category.
\<close>

theorem categorized_error_counterexample:
  "errorOf (Request testlib (NewRequester (testClient refused)) Background (NewRequest ''query {}'')) =
     Some (Lib ''dial tcp 127.0.0.1:80: connect: connection refused'') \<and>
   \<not> inCategory (Lib ''dial tcp 127.0.0.1:80: connect: connection refused'') \<and>
   errorOf (Request testlib
      (NewRequester (testClient (server 200 (Reader ''Internal Server error'' None))))
      Background (NewRequest ''query {}'')) =
     Some (Wrap (Lib ''invalid character'') ''decoding response'') \<and>
   \<not> inCategory (Wrap (Lib ''invalid character'') ''decoding response'')"
proof (intro conjI)
  show "errorOf (Request testlib (NewRequester (testClient refused)) Background (NewRequest ''query {}'')) =
     Some (Lib ''dial tcp 127.0.0.1:80: connect: connection refused'')"
    by code_simp
  show "\<not> inCategory (Lib ''dial tcp 127.0.0.1:80: connect: connection refused'')"
    by simp
  show "errorOf (Request testlib
      (NewRequester (testClient (server 200 (Reader ''Internal Server error'' None))))
      Background (NewRequest ''query {}'')) =
     Some (Wrap (Lib ''invalid character'') ''decoding response'')"
    by code_simp
  show "\<not> inCategory (Wrap (Lib ''invalid character'') ''decoding response'')"
    by code_simp
qed

text \<open>
  C8, amended. Every call returns one of three things. The nil error, with the Response
  decoded from the body of the one answer of the transport. Or, when that body was read
  and decoding it failed, an error: in the multipart strategy the error of the decoder
  wrapped under "decode", in the JSON strategy with a status other than 200 the error made
  from the status code; nothing is said here of the Response after a failed decoding, nor
  of the error of the JSON strategy with status 200. Or, on every other failure, the zero
  Response with an error that is \<open>ErrInvalidInput\<close> (files without the multipart flag),
  a cause wrapped under "create variables field", "encode variables", "create form file",
  "copy" or "close writer" (multipart), a read error wrapped under "read body" or, in the
  multipart strategy with a status other than 200, the error made from the status code,
  or the error, returned as it is, of the step that failed: writing the query field
  (multipart), encoding the body (JSON), building the HTTP request, or the call of the
  transport.
\<close>

theorem request_outcome:
  "(errorOf (Request l r ctx req) = None \<and>
    (\<exists>hr httpRes body.
        callsOf (Request l r ctx req) = [hr] \<and> httpClient (client r) hr = Inr httpRes \<and>
        io_ReadAll (Body httpRes) = (body, None) \<and>
        Unmarshal l body (zeroResponse l) = (responseOf (Request l r ctx req), None))) \<or>
   (\<exists>hr httpRes body left d x.
        callsOf (Request l r ctx req) = [hr] \<and> httpClient (client r) hr = Inr httpRes \<and>
        io_ReadAll (Body httpRes) = (body, None) \<and>
        Unmarshal l body (zeroResponse l) = (left, Some d) \<and>
        errorOf (Request l r ctx req) = Some x \<and>
        ((useMultipartForm (client r) \<and> x = Wrap d ''decode'') \<or>
         (\<not> useMultipartForm (client r) \<and> StatusCode httpRes \<noteq> 200 \<and>
          x = Errorf (''graphql: server returned a non-200 status code: '' @
                      Itoa (StatusCode httpRes))) \<or>
         (\<not> useMultipartForm (client r) \<and> StatusCode httpRes = 200))) \<or>
   (\<exists>x. errorOf (Request l r ctx req) = Some x \<and>
      responseOf (Request l r ctx req) = zeroResponse l \<and>
      ((files req \<noteq> [] \<and> \<not> useMultipartForm (client r) \<and>
        callsOf (Request l r ctx req) = [] \<and> x = ErrInvalidInput) \<or>
       (useMultipartForm (client r) \<and> callsOf (Request l r ctx req) = [] \<and>
        ((\<exists>c. x = Wrap c ''create variables field'') \<or>
         (\<exists>c. x = Wrap c ''encode variables'') \<or>
         (\<exists>c. x = Wrap c ''create form file'') \<or>
         (\<exists>c. x = Wrap c ''copy'') \<or>
         (\<exists>c. x = Wrap c ''close writer'') \<or>
         WriteField l (NewWriter l) ''query'' (Query_String (q req)) = Inl x)) \<or>
       (\<not> useMultipartForm (client r) \<and> callsOf (Request l r ctx req) = [] \<and>
        Encode_requestQuery \<lparr>rqQuery = q req, rqVariables = vars req\<rparr> = Inl x) \<or>
       (callsOf (Request l r ctx req) = [] \<and>
        (\<exists>body. http_NewRequestWithContext l ctx ''POST'' (endpoint (client r)) body = Inl x)) \<or>
       (\<exists>hr. callsOf (Request l r ctx req) = [hr] \<and> httpClient (client r) hr = Inl x) \<or>
       (\<exists>hr httpRes body c.
           callsOf (Request l r ctx req) = [hr] \<and> httpClient (client r) hr = Inr httpRes \<and>
           io_ReadAll (Body httpRes) = (body, Some c) \<and>
           ((useMultipartForm (client r) \<and> StatusCode httpRes \<noteq> 200 \<and>
             x = Errorf (''graphql: server returned a non-200 status code: '' @
                         Itoa (StatusCode httpRes))) \<or>
            (useMultipartForm (client r) \<and> StatusCode httpRes = 200 \<and>
             x = Wrap c ''read body'') \<or>
            (\<not> useMultipartForm (client r) \<and> x = Wrap c ''read body'')))))"
  (is "?P (Request l r ctx req)")
proof -
  have J: "?P (requestJSON l r ctx req)" if nm: "\<not> useMultipartForm (client r)"
  proof (cases "Encode_requestQuery \<lparr>rqQuery = q req, rqVariables = vars req\<rparr>")
    case (Inl e)
    from Inl nm show ?thesis
      by (simp add: requestJSON_early(1) [OF Inl] errorOf_def responseOf_def callsOf_def)
  next
    case enc: (Inr body)
    show ?thesis
    proof (cases "http_NewRequestWithContext l ctx ''POST'' (endpoint (client r)) body")
      case (Inl e)
      have "\<exists>b. http_NewRequestWithContext l ctx ''POST'' (endpoint (client r)) b = Inl e"
        using Inl by blast
      then show ?thesis
        by (simp add: requestJSON_early(2) [OF enc Inl] errorOf_def responseOf_def callsOf_def)
    next
      case h0: (Inr h0)
      let ?hr = "(setRequestHeaders l r h0 req ''application/json; charset=utf-8'')\<lparr>httpCtx := ctx\<rparr>"
      note eq = requestJSON_late [OF enc h0 refl]
      show ?thesis
      proof (cases "httpClient (client r) ?hr")
        case (Inl e)
        then show ?thesis
          by (simp add: eq errorOf_def responseOf_def callsOf_def)
      next
        case res: (Inr httpRes)
        obtain bs eo where rd: "io_ReadAll (Body httpRes) = (bs, eo)"
          by (cases "io_ReadAll (Body httpRes)")
        show ?thesis
        proof (cases eo)
          case (Some e)
          with res rd nm show ?thesis
            by (simp add: eq errorOf_def responseOf_def callsOf_def NewError_wraps)
        next
          case None
          obtain left uo where um: "Unmarshal l bs (zeroResponse l) = (left, uo)"
            by (cases "Unmarshal l bs (zeroResponse l)")
          show ?thesis
          proof (cases uo)
            case (Some d)
            with res rd None um nm show ?thesis
              by (simp add: eq errorOf_def responseOf_def callsOf_def statusError_text
                  StatusOK_def)
          next
            case ok: None
            with res rd None um show ?thesis
              by (simp add: eq errorOf_def responseOf_def callsOf_def)
          qed
        qed
      qed
    qed
  qed
  have M: "?P (requestMultipart l r ctx req)" if mp: "useMultipartForm (client r)"
  proof (cases "WriteField l (NewWriter l) ''query'' (Query_String (q req))")
    case (Inl e)
    from Inl mp show ?thesis
      by (simp add: requestMultipart_early(1) [OF Inl] errorOf_def responseOf_def callsOf_def)
  next
    case w1: (Inr w1)
    show ?thesis
    proof (cases "if lenVars (vars req) > 0 then writeVariables l w1 (vars req) else Inr w1")
      case (Inl e)
      then have "(\<exists>c. e = Wrap c ''create variables field'') \<or> (\<exists>c. e = Wrap c ''encode variables'')"
        by (auto split: if_splits dest: writeVariables_wraps)
      with mp show ?thesis
        by (auto simp add: requestMultipart_early(2) [OF w1 Inl] errorOf_def responseOf_def
            callsOf_def)
    next
      case w2: (Inr w2)
      show ?thesis
      proof (cases "writeFiles l w2 (files req)")
        case (Inl e)
        from writeFiles_wraps [OF Inl] mp show ?thesis
          by (auto simp add: requestMultipart_early(3) [OF w1 w2 Inl] errorOf_def responseOf_def
              callsOf_def)
      next
        case w3: (Inr w3)
        show ?thesis
        proof (cases "Close l w3")
          case (Inl e)
          from mp show ?thesis
            by (simp add: requestMultipart_early(4) [OF w1 w2 w3 Inl] errorOf_def responseOf_def
                callsOf_def)
        next
          case wr: (Inr writer)
          show ?thesis
          proof (cases "http_NewRequestWithContext l ctx ''POST'' (endpoint (client r)) (Bytes l writer)")
            case (Inl e)
            have "\<exists>b. http_NewRequestWithContext l ctx ''POST'' (endpoint (client r)) b = Inl e"
              using Inl by blast
            then show ?thesis
              by (simp add: requestMultipart_early(5) [OF w1 w2 w3 wr Inl] errorOf_def
                  responseOf_def callsOf_def)
          next
            case h0: (Inr h0)
            let ?hr = "setRequestHeaders l r h0 req (FormDataContentType l writer)"
            note eq = requestMultipart_late [OF w1 w2 w3 wr h0 refl]
            show ?thesis
            proof (cases "httpClient (client r) ?hr")
              case (Inl e)
              then show ?thesis
                by (simp add: eq errorOf_def responseOf_def callsOf_def)
            next
              case res: (Inr httpRes)
              obtain bs eo where rd: "io_ReadAll (Body httpRes) = (bs, eo)"
                by (cases "io_ReadAll (Body httpRes)")
              show ?thesis
              proof (cases eo)
                case (Some e)
                with res rd mp show ?thesis
                  by (simp add: eq errorOf_def responseOf_def callsOf_def NewError_wraps
                      statusError_text StatusOK_def)
              next
                case None
                obtain left uo where um: "Unmarshal l bs (zeroResponse l) = (left, uo)"
                  by (cases "Unmarshal l bs (zeroResponse l)")
                show ?thesis
                proof (cases uo)
                  case (Some d)
                  with res rd None um mp show ?thesis
                    by (simp add: eq errorOf_def responseOf_def callsOf_def NewError_wraps)
                next
                  case ok: None
                  with res rd None um show ?thesis
                    by (simp add: eq errorOf_def responseOf_def callsOf_def)
                qed
              qed
            qed
          qed
        qed
      qed
    qed
  qed
  show ?thesis
  proof (cases "useMultipartForm (client r)")
    case True
    from M [OF True] show ?thesis
      unfolding Request_Multipart [OF True] .
  next
    case False
    show ?thesis
    proof (cases "files req = []")
      case True
      with False have "Request l r ctx req = requestJSON l r ctx req"
        by (simp add: Request_def)
      with J [OF False] show ?thesis
        by simp
    next
      case nonempty: False
      with False show ?thesis
        by (simp add: Request_def errorOf_def responseOf_def callsOf_def)
    qed
  qed
qed


theorem request_outcome_witness:
  "errorOf (Request testlib (NewRequester (testClient refused)) Background (NewRequest ''query {}'')) =
     Some (Lib ''dial tcp 127.0.0.1:80: connect: connection refused'') \<and>
   responseOf (Request testlib (NewRequester (testClient refused)) Background
      (NewRequest ''query {}'')) = zeroResponse testlib \<and>
   (\<exists>hr. callsOf (Request testlib (NewRequester (testClient refused)) Background
             (NewRequest ''query {}'')) = [hr] \<and>
         httpClient (client (NewRequester (testClient refused))) hr =
           Inl (Lib ''dial tcp 127.0.0.1:80: connect: connection refused'')) \<and>
   responseOf (Request partiallib
      (NewRequester (UseMultipartForm (testClient (server 200 (Reader bodyPartial None)))))
      Background (NewRequest ''query {}'')) \<noteq> zeroResponse partiallib \<and>
   (\<exists>hr httpRes body left d.
       callsOf (Request partiallib
          (NewRequester (UseMultipartForm (testClient (server 200 (Reader bodyPartial None)))))
          Background (NewRequest ''query {}'')) = [hr] \<and>
       httpClient (client (NewRequester (UseMultipartForm
          (testClient (server 200 (Reader bodyPartial None)))))) hr = Inr httpRes \<and>
       io_ReadAll (Body httpRes) = (body, None) \<and>
       Unmarshal partiallib body (zeroResponse partiallib) = (left, Some d) \<and>
       errorOf (Request partiallib
          (NewRequester (UseMultipartForm (testClient (server 200 (Reader bodyPartial None)))))
          Background (NewRequest ''query {}'')) = Some (Wrap d ''decode''))"
proof -
  let ?r = "NewRequester (testClient refused)"
  let ?p = "NewRequester (UseMultipartForm (testClient (server 200 (Reader bodyPartial None))))"
  let ?req = "NewRequest ''query {}''"
  let ?x = "Lib ''dial tcp 127.0.0.1:80: connect: connection refused''"
  have e: "errorOf (Request testlib ?r Background ?req) = Some ?x"
    by code_simp
  have n1: "\<not> useMultipartForm (client ?r)"
    by (simp add: NewRequester_def testClient_def)
  have n2: "http_NewRequestWithContext testlib Background ''POST'' (endpoint (client ?r)) body \<noteq> Inl ?x"
    for body
    by (simp add: http_NewRequestWithContext_def testlib_def)
  have n3: "Encode_requestQuery \<lparr>rqQuery = q ?req, rqVariables = vars ?req\<rparr> \<noteq> Inl ?x"
    by code_simp
  have n4: "files ?req = []"
    by (simp add: NewRequest_def)
  have n5: "httpClient (client ?r) hr \<noteq> Inr httpRes" for hr httpRes
    by (simp add: NewRequester_def testClient_def refused_def)
  from request_outcome [of testlib ?r Background ?req] e n1 n2 n3 n4 n5
  have A: "responseOf (Request testlib ?r Background ?req) = zeroResponse testlib \<and>
      (\<exists>hr. callsOf (Request testlib ?r Background ?req) = [hr] \<and>
            httpClient (client ?r) hr = Inl ?x)"
    by auto
  have m: "useMultipartForm (client ?p)"
    by (simp add: NewRequester_def testClient_def UseMultipartForm_def)
  have s: "errorOf (Request partiallib ?p Background ?req) \<noteq> None"
    by code_simp
  have z: "responseOf (Request partiallib ?p Background ?req) \<noteq> zeroResponse partiallib"
    by code_simp
  from request_outcome [of partiallib ?p Background ?req] m s z
  have B: "\<exists>hr httpRes body left d.
       callsOf (Request partiallib ?p Background ?req) = [hr] \<and>
       httpClient (client ?p) hr = Inr httpRes \<and>
       io_ReadAll (Body httpRes) = (body, None) \<and>
       Unmarshal partiallib body (zeroResponse partiallib) = (left, Some d) \<and>
       errorOf (Request partiallib ?p Background ?req) = Some (Wrap d ''decode'')"
    by auto
  from e A z B show ?thesis
    by blast
qed

end
